theory Spec2Isabelle
  imports Complex_Main
begin

section \<open>JavaScript values as the code sees them\<close>

text \<open>
  The SDK inspects response bodies of type \<open>any\<close>: whatever \<open>JSON.parse\<close> produced.
  A parsed body is a \<open>json\<close> value; \<open>undefined\<close> (a missing property) is \<open>None\<close>
  of \<open>json option\<close>. Numbers are kept as integers: the code only tests them for
  truthiness and converts them to text, and the conversion is a platform function.
\<close>

datatype json =
    JNull
  | JBool bool
  | JNum int
  | JStr string
  | JArr "json list"
  | JObj "(string \<times> json) list"

type_synonym jsval = "json option"

text \<open>JavaScript truthiness: \<open>null\<close>, \<open>false\<close>, \<open>0\<close> and \<open>""\<close> are falsy, as is \<open>undefined\<close>.\<close>

fun truthy :: "json \<Rightarrow> bool" where
  "truthy JNull = False"
| "truthy (JBool b) = b"
| "truthy (JNum n) = (n \<noteq> 0)"
| "truthy (JStr s) = (s \<noteq> [])"
| "truthy (JArr xs) = True"
| "truthy (JObj kvs) = True"

fun truthy_val :: "jsval \<Rightarrow> bool" where
  "truthy_val None = False"
| "truthy_val (Some v) = truthy v"

text \<open>
  Property access \<open>v?.k\<close> for the fixed property names the code reads (\<open>error\<close>,
  \<open>data\<close>, \<open>errorMessage\<close>, ...): an object yields its own property, every other
  value (a primitive, an array, \<open>null\<close>, \<open>undefined\<close>) yields \<open>undefined\<close>.
\<close>

fun property :: "jsval \<Rightarrow> string \<Rightarrow> jsval" where
  "property (Some (JObj kvs)) k = map_of kvs k"
| "property _ k = None"

text \<open>\<open>a ?? b\<close>: the right operand is taken when the left one is \<open>null\<close> or \<open>undefined\<close>.\<close>

fun nullish :: "jsval \<Rightarrow> bool" where
  "nullish None = True"
| "nullish (Some JNull) = True"
| "nullish (Some v) = False"

definition coalesce :: "jsval \<Rightarrow> jsval \<Rightarrow> jsval" where
  "coalesce a b = (if nullish a then b else a)"

text \<open>\<open>a || b\<close>: the right operand is taken when the left one is falsy.\<close>

definition js_or :: "jsval \<Rightarrow> jsval \<Rightarrow> jsval" where
  "js_or a b = (if truthy_val a then a else b)"

text \<open>\<open>Object.keys(v).length\<close> for a truthy value \<open>v\<close>.\<close>

fun object_keys_length :: "json \<Rightarrow> nat" where
  "object_keys_length (JObj kvs) = length (remdups (map fst kvs))"
| "object_keys_length (JArr xs) = length xs"
| "object_keys_length (JStr s) = length s"
| "object_keys_length _ = 0"

text \<open>Decimal text of a number, as a template literal prints a status code or a count.\<close>

fun digit_char :: "nat \<Rightarrow> char" where
  "digit_char n = char_of (48 + n)"

fun string_of_nat :: "nat \<Rightarrow> string" where
  "string_of_nat n = (if n < 10 then [digit_char n] else string_of_nat (n div 10) @ [digit_char (n mod 10)])"

declare string_of_nat.simps [simp del]

section \<open>Platform, network and world\<close>

text \<open>
  An HTTP response as the code reads it: \<open>response.status\<close>, \<open>response.statusText\<close> and
  the text of the body. \<open>response.ok\<close> is the fetch standard's test on the status.
\<close>

record response =
  status :: nat
  statusText :: string
  body :: string

definition ok :: "response \<Rightarrow> bool" where
  "ok r = (200 \<le> status r \<and> status r \<le> 299)"

text \<open>
  A \<open>fetch\<close> either rejects (transport error or the 30 second timeout) with an error
  message, or yields a response; both after some elapsed milliseconds.
\<close>

datatype fetch_outcome =
    Rejected int string
  | Responded int response

fun elapsed :: "fetch_outcome \<Rightarrow> int" where
  "elapsed (Rejected ms m) = ms"
| "elapsed (Responded ms r) = ms"

text \<open>
  What the code takes from outside the repository: the built-ins \<open>JSON.parse\<close>
  (\<open>None\<close> when it throws a SyntaxError), \<open>JSON.stringify\<close>, \<open>String\<close>, the local
  calendar (\<open>startOfDay t\<close> is the time of \<open>new Date(y, m, d)\<close> for the local date of
  \<open>t\<close>), and the remote services: the outcome of the k-th credential exchange and of
  the k-th business call.
\<close>

record env =
  JSON_parse :: "string \<Rightarrow> json option"
  JSON_stringify :: "json \<Rightarrow> string"
  ToString :: "json \<Rightarrow> string"
  startOfDay :: "int \<Rightarrow> int"
  authFetch :: "nat \<Rightarrow> fetch_outcome"
  apiFetch :: "nat \<Rightarrow> fetch_outcome"

text \<open>
  The text of a value in a template literal or as the message of \<open>new Error(v)\<close>:
  a string is itself, anything else goes through \<open>String\<close>.
\<close>

fun str :: "env \<Rightarrow> json \<Rightarrow> string" where
  "str E (JStr s) = s"
| "str E v = ToString E v"

record credentials =
  accountNumber :: string
  username :: string
  password :: string

text \<open>
  The GeoSession value is whatever \<open>payload.data.geoSession\<close> held; the code only
  tests it for truthiness.
\<close>

type_synonym token = json

datatype event =
    AuthFetch credentials
  | Dispatch string token
  | Delay int
  | ClearGeoSession
  | StorageSet token int
  | StorageClear

text \<open>
  The mutable state: the clock (milliseconds), the module-level \<open>tokenCache\<close>, the
  content of the manager's storage adapter (what \<open>storage.get()\<close> resolves to), the
  number of fetches made so far to each service, and the effects in order. The adapter
  is the contract of \<open>GeoSessionStorage\<close>: \<open>get\<close>, \<open>set\<close> and \<open>clear\<close> on one
  stored pair, none of them failing. Console output is left out.

  A \<open>Date\<close> is its time value in milliseconds, or an Invalid Date, whose time value
  is NaN. The expiry in \<open>tokenCache\<close> is only ever written by \<open>authenticate\<close>, from
  \<open>Date.now()\<close>, so it is a time value; the expiry that a storage adapter hands back
  may be any \<open>Date\<close>.
\<close>

datatype jsdate = ValidDate int | InvalidDate

record world =
  clock :: int
  cache_geoSession :: "token option"
  cache_expiry :: "int option"
  storage :: "(token \<times> jsdate) option"
  authCalls :: nat
  apiCalls :: nat
  trace :: "event list"

definition emit :: "event \<Rightarrow> world \<Rightarrow> world" where
  "emit e w = w\<lparr>trace := trace w @ [e]\<rparr>"

definition delay :: "int \<Rightarrow> world \<Rightarrow> world" where
  "delay ms w = emit (Delay ms) (w\<lparr>clock := clock w + max 0 ms\<rparr>)"

section \<open>GeoSessionManager.isSessionValid\<close>

text \<open>
  Every comparison with NaN is false: \<open>expiryDate <= now\<close>, the \<open>===\<close> of the two
  starts of day (\<open>new Date(NaN, NaN, NaN)\<close> is again an Invalid Date) and
  \<open>hoursSinceCreation > 12\<close>. \<open>now\<close> is \<open>new Date()\<close>, always a valid date.
\<close>

fun expired :: "jsdate \<Rightarrow> int \<Rightarrow> bool" where
  "expired (ValidDate t) now = (t \<le> now)"
| "expired InvalidDate now = False"

fun same_start_of_day :: "env \<Rightarrow> jsdate \<Rightarrow> int \<Rightarrow> bool" where
  "same_start_of_day E (ValidDate t) now = (startOfDay E t = startOfDay E now)"
| "same_start_of_day E InvalidDate now = False"

text \<open>
  The division is JavaScript's on doubles; both operands are integers far below \<open>2^53\<close>,
  where the quotient exceeds 12 exactly when the real quotient does.
\<close>

fun over_12_hours_old :: "jsdate \<Rightarrow> int \<Rightarrow> bool" where
  "over_12_hours_old (ValidDate t) now =
     (let sessionCreatedAt = t - 90 * 60 * 1000;
          hoursSinceCreation = real_of_int (now - sessionCreatedAt) / (1000 * 60 * 60)
      in hoursSinceCreation > 12)"
| "over_12_hours_old InvalidDate now = False"

definition isSessionValid :: "env \<Rightarrow> int \<Rightarrow> jsval \<Rightarrow> jsdate option \<Rightarrow> bool" where
  "isSessionValid E now geoSession expiry =
     (case expiry of
        None \<Rightarrow> False
      | Some expiryDate \<Rightarrow>
          if \<not> truthy_val geoSession then False
          else if expired expiryDate now then False
          else if same_start_of_day E expiryDate now then
            (if over_12_hours_old expiryDate now then False else True)
          else True)"

section \<open>Credential exchange\<close>

text \<open>The message of \<open>new Error(v)\<close>; \<open>new Error(undefined)\<close> has the empty message.\<close>

fun error_message :: "env \<Rightarrow> jsval \<Rightarrow> string" where
  "error_message E None = []"
| "error_message E (Some v) = str E v"

text \<open>
  The module-level \<open>authenticate\<close> and \<open>GeoSessionManager.authenticate\<close> read the
  response of the login call with the same statements; \<open>auth_payload\<close> is that common
  part: the error thrown (\<open>Inl\<close> its message) or the GeoSession returned.
\<close>

definition auth_payload :: "env \<Rightarrow> response \<Rightarrow> string + token" where
  "auth_payload E r =
     (let raw = body r in
      case (if raw \<noteq> [] then JSON_parse E raw else Some JNull) of
        None \<Rightarrow>
          if \<not> ok r then Inl (''Authentication failed: '' @ (if raw \<noteq> [] then raw else statusText r))
          else Inl ''Invalid JSON response from DPD API''
      | Some payload \<Rightarrow>
          if \<not> ok r then
            Inl (error_message E
                  (coalesce (property (property (Some payload) ''error'') ''errorMessage'')
                     (Some (JStr (''Authentication failed: '' @ string_of_nat (status r) @ '' '' @ statusText r)))))
          else if truthy_val (property (Some payload) ''error'') then
            Inl (error_message E
                  (coalesce (property (property (Some payload) ''error'') ''errorMessage'')
                     (Some (JStr ''Authentication failed''))))
          else
            (case property (property (Some payload) ''data'') ''geoSession'' of
               None \<Rightarrow> Inl ''No GeoSession token received from DPD''
             | Some geoSession \<Rightarrow>
                 if \<not> truthy geoSession then Inl ''No GeoSession token received from DPD''
                 else Inr geoSession))"

text \<open>The login \<open>fetch\<close> itself: one more call to the service, some time passes.\<close>

definition auth_call :: "env \<Rightarrow> credentials \<Rightarrow> world \<Rightarrow> (string + token) \<times> world" where
  "auth_call E c w =
     (let out = authFetch E (authCalls w);
          w1 = emit (AuthFetch c) (w\<lparr>clock := clock w + max 0 (elapsed out), authCalls := Suc (authCalls w)\<rparr>)
      in case out of
           Rejected ms m \<Rightarrow> (Inl m, w1)
         | Responded ms r \<Rightarrow> (auth_payload E r, w1))"

definition authenticate :: "env \<Rightarrow> credentials \<Rightarrow> world \<Rightarrow> (string + token) \<times> world" where
  "authenticate E c w =
     (case auth_call E c w of
        (Inl m, w1) \<Rightarrow> (Inl m, w1)
      | (Inr geoSession, w1) \<Rightarrow>
          (Inr geoSession,
           w1\<lparr>cache_geoSession := Some geoSession, cache_expiry := Some (clock w1 + 90 * 60 * 1000)\<rparr>))"

definition getGeoSession :: "env \<Rightarrow> credentials \<Rightarrow> bool \<Rightarrow> world \<Rightarrow> (string + token) \<times> world" where
  "getGeoSession E c forceRefresh w =
     (case (cache_geoSession w, cache_expiry w) of
        (Some geoSession, Some expiry) \<Rightarrow>
          if \<not> forceRefresh \<and> truthy geoSession \<and> expiry > clock w then (Inr geoSession, w)
          else authenticate E c w
      | _ \<Rightarrow> authenticate E c w)"

definition clearGeoSession :: "world \<Rightarrow> world" where
  "clearGeoSession w = emit ClearGeoSession (w\<lparr>cache_geoSession := None, cache_expiry := None\<rparr>)"

definition hasValidToken :: "world \<Rightarrow> bool" where
  "hasValidToken w =
     (case (cache_geoSession w, cache_expiry w) of
        (Some geoSession, Some expiry) \<Rightarrow> truthy geoSession \<and> expiry > clock w
      | _ \<Rightarrow> False)"

section \<open>GeoSessionManager\<close>

record manager =
  mgr_credentials :: credentials
  maxRetries :: nat
  baseRetryDelay :: int

definition GeoSessionManager :: "credentials \<Rightarrow> nat option \<Rightarrow> int option \<Rightarrow> manager" where
  "GeoSessionManager c optMaxRetries optBaseRetryDelay =
     \<lparr>mgr_credentials = c,
      maxRetries = (case optMaxRetries of None \<Rightarrow> 3 | Some n \<Rightarrow> n),
      baseRetryDelay = (case optBaseRetryDelay of None \<Rightarrow> 2000 | Some d \<Rightarrow> d)\<rparr>"

text \<open>
  The loop of \<open>authenticateWithRetry\<close> from a given \<open>attempt\<close> on, with the value of
  \<open>lastError\<close> (its message) at that point.
\<close>

function authenticateWithRetry_from ::
  "env \<Rightarrow> manager \<Rightarrow> nat \<Rightarrow> string option \<Rightarrow> world \<Rightarrow> (string + token \<times> int) \<times> world" where
  "authenticateWithRetry_from E M attempt lastError w =
     (if attempt \<le> maxRetries M then
        (case auth_call E (mgr_credentials M) w of
           (Inr geoSession, w1) \<Rightarrow> (Inr (geoSession, clock w1 + 90 * 60 * 1000), w1)
         | (Inl m, w1) \<Rightarrow>
             authenticateWithRetry_from E M (attempt + 1) (Some m)
               (if attempt < maxRetries M then delay (baseRetryDelay M * 2 ^ (attempt - 1)) w1 else w1))
      else
        (Inl (''Failed to authenticate after '' @ string_of_nat (maxRetries M) @ '' attempts: '' @
              (case lastError of
                 None \<Rightarrow> ''Unknown error''
               | Some m \<Rightarrow> if m \<noteq> [] then m else ''Unknown error'')), w))"
  by pat_completeness auto
termination
  by (relation "measure (\<lambda>(E, M, attempt, lastError, w). Suc (maxRetries M) - attempt)") auto

declare authenticateWithRetry_from.simps [simp del]

definition authenticateWithRetry :: "env \<Rightarrow> manager \<Rightarrow> world \<Rightarrow> (string + token \<times> int) \<times> world" where
  "authenticateWithRetry E M w = authenticateWithRetry_from E M 1 None w"

definition getValidGeoSession :: "env \<Rightarrow> manager \<Rightarrow> world \<Rightarrow> (string + token) \<times> world" where
  "getValidGeoSession E M w =
     (let fetchNew =
            (case authenticateWithRetry E M w of
               (Inr (geoSession, expiry), w1) \<Rightarrow>
                 (Inr geoSession,
                  emit (StorageSet geoSession expiry) (w1\<lparr>storage := Some (geoSession, ValidDate expiry)\<rparr>))
             | (Inl m, w1) \<Rightarrow> (Inl (''Failed to get valid geo session: '' @ m), w1))
      in case storage w of
           None \<Rightarrow> fetchNew
         | Some (geoSession, expiry) \<Rightarrow>
             if isSessionValid E (clock w) (Some geoSession) (Some expiry) then (Inr geoSession, w)
             else fetchNew)"

definition storage_clear :: "world \<Rightarrow> world" where
  "storage_clear w = emit StorageClear (w\<lparr>storage := None\<rparr>)"

definition refreshGeoSession :: "env \<Rightarrow> manager \<Rightarrow> world \<Rightarrow> (string + token) \<times> world" where
  "refreshGeoSession E M w = getValidGeoSession E M (storage_clear w)"


section \<open>authenticatedRequest\<close>

definition BASE_URL :: string where
  "BASE_URL = ''https://api.dpdlocal.co.uk''"

definition RETRY_ATTEMPTS :: nat where
  "RETRY_ATTEMPTS = 3"

definition RETRY_DELAY :: int where
  "RETRY_DELAY = 1000"

text \<open>\<open>DPDRequestOptions\<close>; an optional field left out by the caller is \<open>None\<close>.\<close>

record options =
  req_method :: string
  endpoint :: string
  req_body :: jsval
  headers :: "(string \<times> string) list option"
  retry :: "bool option"
  retryAttempts :: "nat option"

text \<open>The defaults of the destructuring at the top of \<open>authenticatedRequest\<close>.\<close>

definition opt_headers :: "options \<Rightarrow> (string \<times> string) list" where
  "opt_headers opts = (case headers opts of None \<Rightarrow> [] | Some h \<Rightarrow> h)"

definition opt_retry :: "options \<Rightarrow> bool" where
  "opt_retry opts = (case retry opts of None \<Rightarrow> True | Some b \<Rightarrow> b)"

definition opt_retryAttempts :: "options \<Rightarrow> nat" where
  "opt_retryAttempts opts = (case retryAttempts opts of None \<Rightarrow> RETRY_ATTEMPTS | Some n \<Rightarrow> n)"

text \<open>\<open>headers.Accept || headers.accept\<close>\<close>

definition acceptHeader :: "(string \<times> string) list \<Rightarrow> string option" where
  "acceptHeader hs =
     (case map_of hs ''Accept'' of
        None \<Rightarrow> map_of hs ''accept''
      | Some a \<Rightarrow> if a \<noteq> [] then Some a else map_of hs ''accept'')"

definition isLabelRequest :: "(string \<times> string) list \<Rightarrow> bool" where
  "isLabelRequest hs =
     (acceptHeader hs = Some ''text/vnd.zebra-zpl'' \<or>
      acceptHeader hs = Some ''text/vnd.citizen-clp'' \<or>
      acceptHeader hs = Some ''text/vnd.eltron-epl'' \<or>
      acceptHeader hs = Some ''text/html'')"

definition request_url :: "string \<Rightarrow> string" where
  "request_url ep = (if take 4 ep = ''http'' then ep else BASE_URL @ ep)"

text \<open>What a call resolves to: a parsed value (\<open>data\<close>, \<open>parsed.data\<close>) or the raw text.\<close>

datatype payload = Json json | Raw string

text \<open>
  How one pass through the body of the \<open>for\<close> loop ends: a \<open>return\<close>, a \<open>throw\<close>
  inside the \<open>try\<close> (with the message of the error), or the \<open>continue\<close>.
\<close>

datatype 'a step = Return 'a | Throw string | Continue

text \<open>The text a template literal gives a value; \<open>undefined\<close> prints as such.\<close>

fun template :: "env \<Rightarrow> jsval \<Rightarrow> string" where
  "template E None = ''undefined''"
| "template E (Some v) = str E v"

text \<open>
  The error built for a label request whose body is JSON with an error: \<open>Some\<close> the
  message of the \<open>DPD API Error\<close> thrown, or \<open>None\<close> when reading it fails with a
  TypeError (\<open>errorObj.errors[0]\<close> is \<open>null\<close>), which the \<open>catch\<close> around it swallows.
\<close>

definition label_error :: "env \<Rightarrow> json \<Rightarrow> string option" where
  "label_error E parsed =
     (let errorObj = property (Some parsed) ''error'';
          errorMessage = Some (JStr ''Label generation failed'');
          errorCode = Some (JStr ''UNKNOWN'');
          thrown = (\<lambda>code msg. Some (''DPD API Error '' @ template E code @ '': '' @ template E msg))
      in
      if truthy_val errorObj then
        (case errorObj of
           Some (JArr xs) \<Rightarrow>
             (let firstError = (case xs of [] \<Rightarrow> None | x # _ \<Rightarrow> Some x)
              in thrown (js_or (property firstError ''errorCode'') errorCode)
                        (js_or (property firstError ''errorMessage'') errorMessage))
         | _ \<Rightarrow>
             if truthy_val (property errorObj ''errorMessage'') then
               thrown (js_or (property errorObj ''errorCode'') (js_or (property errorObj ''name'') errorCode))
                      (property errorObj ''errorMessage'')
             else if truthy_val (property errorObj ''name'') then
               (case property errorObj ''errors'' of
                  Some (JArr (detailedError # _)) \<Rightarrow>
                    if detailedError = JNull then None
                    else thrown (js_or (property (Some detailedError) ''errorCode'') (property errorObj ''name''))
                                (js_or (property (Some detailedError) ''errorMessage'')
                                   (js_or (property (Some detailedError) ''message'') (property errorObj ''name'')))
                | _ \<Rightarrow> thrown (property errorObj ''name'') (property errorObj ''name''))
             else thrown errorCode errorMessage)
      else thrown errorCode errorMessage)"

text \<open>
  The branch \<open>if (isLabelRequest)\<close>. A SyntaxError of \<open>JSON.parse\<close> has a message that
  does not start with \<open>DPD API Error\<close>, so the inner \<open>catch\<close> lets it pass to \<open>return raw\<close>.
\<close>

definition label_response :: "env \<Rightarrow> response \<Rightarrow> payload step" where
  "label_response E r =
     (let raw = body r in
      if \<not> ok r then
        Throw (''Label request failed: '' @ string_of_nat (status r) @ '' '' @ statusText r)
      else
        (case JSON_parse E raw of
           None \<Rightarrow> Return (Raw raw)
         | Some parsed \<Rightarrow>
             if truthy_val (property (Some parsed) ''error'') \<or> property (Some parsed) ''data'' = Some JNull then
               (case label_error E parsed of
                  None \<Rightarrow> Return (Raw raw)
                | Some m \<Rightarrow> Throw m)
             else
               (case property (Some parsed) ''data'' of
                  None \<Rightarrow> Return (Raw raw)
                | Some d \<Rightarrow> if truthy d then Return (Json d) else Return (Raw raw))))"

definition hasData :: "json \<Rightarrow> bool" where
  "hasData data =
     (case property (Some data) ''data'' of
        None \<Rightarrow> False
      | Some d \<Rightarrow> truthy d \<and> object_keys_length d > 0)"

definition hasError :: "json \<Rightarrow> bool" where
  "hasError data = truthy_val (property (Some data) ''error'')"

text \<open>The argument of the \<open>throw new Error(...)\<close> of a failed JSON request.\<close>

definition request_error_message :: "env \<Rightarrow> json \<Rightarrow> response \<Rightarrow> string" where
  "request_error_message E data r =
     (let err = property (Some data) ''error'' in
      error_message E
        (coalesce (property err ''errorMessage'')
          (coalesce (property err ''errorAction'')
            (coalesce (property err ''obj'')
              (coalesce (map_option (\<lambda>e. JStr (JSON_stringify E e)) err)
                (Some (JStr (''Request failed: '' @ statusText r))))))))"

text \<open>The rest of the loop body for a request that is not a label request.\<close>

definition json_response :: "env \<Rightarrow> options \<Rightarrow> nat \<Rightarrow> response \<Rightarrow> world \<Rightarrow> payload step \<times> world" where
  "json_response E opts attempt r w =
     (let raw = body r in
      case (if raw \<noteq> [] then JSON_parse E raw else Some JNull) of
        None \<Rightarrow>
          if \<not> ok r then (Throw (if raw \<noteq> [] then raw else statusText r), w)
          else (Throw ''Invalid JSON response from DPD API'', w)
      | Some data \<Rightarrow>
          if \<not> ok r \<or> (hasError data \<and> \<not> hasData data) then
            if status r = 401 \<and> opt_retry opts \<and> attempt < opt_retryAttempts opts - 1 then
              (Continue, delay (RETRY_DELAY * (int attempt + 1)) (clearGeoSession w))
            else (Throw (request_error_message E data r), w)
          else (Return (Json data), w))"

definition dispatch :: "env \<Rightarrow> string \<Rightarrow> token \<Rightarrow> world \<Rightarrow> fetch_outcome \<times> world" where
  "dispatch E url geoSession w =
     (let out = apiFetch E (apiCalls w)
      in (out, emit (Dispatch url geoSession)
                 (w\<lparr>clock := clock w + max 0 (elapsed out), apiCalls := Suc (apiCalls w)\<rparr>)))"

text \<open>The body of the \<open>try\<close> for one value of \<open>attempt\<close>.\<close>

definition request_attempt ::
  "env \<Rightarrow> credentials \<Rightarrow> options \<Rightarrow> nat \<Rightarrow> world \<Rightarrow> payload step \<times> world" where
  "request_attempt E c opts attempt w =
     (case getGeoSession E c (attempt > 0) w of
        (Inl m, w1) \<Rightarrow> (Throw m, w1)
      | (Inr geoSession, w1) \<Rightarrow>
          (case dispatch E (request_url (endpoint opts)) geoSession w1 of
             (Rejected ms m, w2) \<Rightarrow> (Throw m, w2)
           | (Responded ms r, w2) \<Rightarrow>
               if isLabelRequest (opt_headers opts) then (label_response E r, w2)
               else json_response E opts attempt r w2))"

text \<open>
  The \<open>for\<close> loop from a given \<open>attempt\<close> on, with \<open>lastError\<close> as it is then; the
  \<open>catch\<close> block is the \<open>Throw\<close> case. In the body \<open>attempt < retryAttempts\<close> holds, so
  \<open>retryAttempts - 1\<close> is the same number on \<open>nat\<close> as in the source.
\<close>

function authenticatedRequest_from ::
  "env \<Rightarrow> credentials \<Rightarrow> options \<Rightarrow> nat \<Rightarrow> string option \<Rightarrow> world \<Rightarrow> (string + payload) \<times> world" where
  "authenticatedRequest_from E c opts attempt lastError w =
     (if attempt < opt_retryAttempts opts then
        (case request_attempt E c opts attempt w of
           (Return v, w1) \<Rightarrow> (Inr v, w1)
         | (Continue, w1) \<Rightarrow> authenticatedRequest_from E c opts (attempt + 1) lastError w1
         | (Throw m, w1) \<Rightarrow>
             if \<not> opt_retry opts \<or> attempt \<ge> opt_retryAttempts opts - 1 then (Inl m, w1)
             else authenticatedRequest_from E c opts (attempt + 1) (Some m)
                    (delay (RETRY_DELAY * (int attempt + 1)) w1))
      else
        (Inl (case lastError of None \<Rightarrow> ''Request failed after retries'' | Some m \<Rightarrow> m), w))"
  by pat_completeness auto
termination
  by (relation "measure (\<lambda>(E, c, opts, attempt, lastError, w). opt_retryAttempts opts - attempt)") auto

declare authenticatedRequest_from.simps [simp del]

definition authenticatedRequest ::
  "env \<Rightarrow> credentials \<Rightarrow> options \<Rightarrow> world \<Rightarrow> (string + payload) \<times> world" where
  "authenticatedRequest E c opts w = authenticatedRequest_from E c opts 0 None w"


section \<open>validateAddress\<close>

text \<open>
  Strings are sequences of 8-bit code units here. In that range \<open>\s\<close> matches
  TAB, LF, VT, FF, CR, space and the no-break space.
\<close>

definition is_space :: "char \<Rightarrow> bool" where
  "is_space ch = ((of_char ch :: nat) \<in> {9, 10, 11, 12, 13, 32, 160})"

definition is_upper :: "char \<Rightarrow> bool" where
  "is_upper ch = (65 \<le> (of_char ch :: nat) \<and> (of_char ch :: nat) \<le> 90)"

definition is_digit :: "char \<Rightarrow> bool" where
  "is_digit ch = (48 \<le> (of_char ch :: nat) \<and> (of_char ch :: nat) \<le> 57)"

text \<open>
  An anchored regular expression \<open>^c1{lo1,hi1} c2{lo2,hi2} ... $\<close> of character classes
  with bounded repetition, and its test on a whole string.
\<close>

type_synonym regex = "(nat \<times> nat \<times> (char \<Rightarrow> bool)) list"

fun regex_test :: "regex \<Rightarrow> string \<Rightarrow> bool" where
  "regex_test [] s = (s = [])"
| "regex_test ((lo, hi, cls) # rest) s =
     (\<exists>n \<in> set [lo..<Suc hi]. n \<le> length s \<and> list_all cls (take n s) \<and> regex_test rest (drop n s))"

text \<open>\<open>/^[A-Z]{1,2}\d{1,2}[A-Z]?\d[A-Z]{2}$/\<close>\<close>

definition postcodeRegex :: regex where
  "postcodeRegex = [(1, 2, is_upper), (1, 2, is_digit), (0, 1, is_upper), (1, 1, is_digit), (2, 2, is_upper)]"

record validate_params =
  postcode :: string
  town :: string

record validate_result =
  valid :: bool
  serviceable :: bool
  message :: "string option"

text \<open>
  The answer of postcodes.io as the code reads it; \<open>lr_json\<close> is what
  \<open>response.json()\<close> resolves to, or \<open>Inl\<close> the message of the error it rejects with.
\<close>

record lookup_response =
  lr_status :: nat
  lr_statusText :: string
  lr_json :: "string + json"

datatype lookup_outcome =
    LookupRejected string
  | LookupResponded lookup_response

text \<open>
  Taken from outside the repository: the case mappings of strings, the text of a value,
  the message the engine gives a TypeError at a named expression, and the outcome of
  the lookup of a cleaned postcode.
\<close>

record lookup_env =
  toUpperCase :: "string \<Rightarrow> string"
  toLowerCase :: "string \<Rightarrow> string"
  valueText :: "json \<Rightarrow> string"
  typeErrorMessage :: "string \<Rightarrow> string"
  postcodeFetch :: "string \<Rightarrow> lookup_outcome"

fun lookup_template :: "lookup_env \<Rightarrow> jsval \<Rightarrow> string" where
  "lookup_template L None = ''undefined''"
| "lookup_template L (Some (JStr s)) = s"
| "lookup_template L (Some v) = valueText L v"

text \<open>\<open>a.includes(b)\<close> on strings.\<close>

definition string_includes :: "string \<Rightarrow> string \<Rightarrow> bool" where
  "string_includes a b = (\<exists>i \<in> set [0..<Suc (length a)]. take (length b) (drop i a) = b)"

text \<open>The statements after a successful (\<open>response.ok\<close>) lookup; \<open>wanted\<close> is \<open>params.town\<close>.\<close>

definition lookup_result :: "lookup_env \<Rightarrow> string \<Rightarrow> lookup_response \<Rightarrow> validate_result" where
  "lookup_result L wanted r =
     (let failed = (\<lambda>m. \<lparr>valid = False, serviceable = False, message = Some m\<rparr>) in
      case lr_json r of
        Inl m \<Rightarrow> failed m
      | Inr JNull \<Rightarrow> failed (typeErrorMessage L ''data.result'')
      | Inr data \<Rightarrow>
          (let result = property (Some data) ''result'' in
           if \<not> truthy_val result then \<lparr>valid = False, serviceable = False, message = Some ''Invalid postcode''\<rparr>
           else
             (let country = property result ''country'';
                  isServiceable = (country \<in> {Some (JStr ''England''), Some (JStr ''Wales''), Some (JStr ''Scotland'')});
                  returnedTown = js_or (property result ''admin_district'')
                                   (js_or (property result ''parish'') (Some (JStr [])));
                  final = \<lparr>valid = True, serviceable = isServiceable,
                           message = Some (if isServiceable then ''Address is valid and serviceable by DPD''
                                           else ''Address is valid but may not be serviceable by DPD ('' @
                                                lookup_template L country @ '')'')\<rparr>
              in
              if wanted = [] then final
              else
                (case returnedTown of
                   Some (JStr rt) \<Rightarrow>
                     if string_includes (toLowerCase L rt) (toLowerCase L wanted) \<or>
                        string_includes (toLowerCase L wanted) (toLowerCase L rt)
                     then final
                     else \<lparr>valid = True, serviceable = isServiceable,
                           message = Some (''Postcode valid but town mismatch. Expected: '' @ rt)\<rparr>
                 | _ \<Rightarrow> failed (typeErrorMessage L ''returnedTown.toLowerCase'')))))"

text \<open>
  \<open>validateAddress\<close> returns its result together with the lookups it made (the
  cleaned postcodes it asked postcodes.io for), in order.
\<close>

definition validateAddress ::
  "lookup_env \<Rightarrow> credentials \<Rightarrow> validate_params \<Rightarrow> validate_result \<times> string list" where
  "validateAddress L c params =
     (let cleanPostcode = toUpperCase L (filter (\<lambda>ch. \<not> is_space ch) (postcode params)) in
      if \<not> regex_test postcodeRegex cleanPostcode then
        (\<lparr>valid = False, serviceable = False, message = Some ''Invalid UK postcode format''\<rparr>, [])
      else
        (case postcodeFetch L cleanPostcode of
           LookupRejected m \<Rightarrow> (\<lparr>valid = False, serviceable = False, message = Some m\<rparr>, [cleanPostcode])
         | LookupResponded r \<Rightarrow>
             (if \<not> (200 \<le> lr_status r \<and> lr_status r \<le> 299) then
                (if lr_status r = 404 then
                   \<lparr>valid = False, serviceable = False, message = Some ''Postcode not found in UK database''\<rparr>
                 else
                   \<lparr>valid = False, serviceable = False,
                    message = Some (''Postcode lookup failed: '' @ lr_statusText r)\<rparr>)
              else lookup_result L (town params) r,
              [cleanPostcode])))"


section \<open>Notions used to state the properties\<close>

text \<open>
  The staleness rule in the words of the specification: the expiry falls on the current
  calendar day and the session was issued (expiry minus the fixed 90 minutes) more than
  12 hours before now.
\<close>

definition calendar_stale :: "env \<Rightarrow> int \<Rightarrow> int \<Rightarrow> bool" where
  "calendar_stale E now expiresAt =
     (startOfDay E expiresAt = startOfDay E now \<and>
      now - (expiresAt - 90 * 60 * 1000) > 12 * 60 * 60 * 1000)"

text \<open>What the k-th credential exchange gives the authenticator, and its message when it fails.\<close>

definition auth_result :: "env \<Rightarrow> nat \<Rightarrow> string + token" where
  "auth_result E k =
     (case authFetch E k of Rejected ms m \<Rightarrow> Inl m | Responded ms r \<Rightarrow> auth_payload E r)"

definition auth_failure :: "env \<Rightarrow> nat \<Rightarrow> string" where
  "auth_failure E k = (case auth_result E k of Inl m \<Rightarrow> m | Inr g \<Rightarrow> [])"

text \<open>The waits recorded in a trace, and the number of credential exchanges in it.\<close>

fun delays :: "event list \<Rightarrow> int list" where
  "delays [] = []"
| "delays (Delay ms # evs) = ms # delays evs"
| "delays (ev # evs) = delays evs"

fun auth_fetches :: "event list \<Rightarrow> nat" where
  "auth_fetches [] = 0"
| "auth_fetches (AuthFetch c # evs) = Suc (auth_fetches evs)"
| "auth_fetches (ev # evs) = auth_fetches evs"

text \<open>
  The effects of the attempts \<open>first, first + 1, ..., maxRetries\<close> of a manager whose
  authenticator fails each time: an exchange, then the backoff unless it was the last.
\<close>

definition attempts_trace :: "manager \<Rightarrow> nat \<Rightarrow> event list" where
  "attempts_trace M first =
     concat (map (\<lambda>attempt. AuthFetch (mgr_credentials M) #
                    (if attempt < maxRetries M then [Delay (baseRetryDelay M * 2 ^ (attempt - 1))] else []))
               [first..<Suc (maxRetries M)])"

text \<open>\<open>lastError?.message || "Unknown error"\<close> for an error that exists.\<close>

definition wrapped_message :: "string \<Rightarrow> string" where
  "wrapped_message m = (if m = [] then ''Unknown error'' else m)"

text \<open>Whether \<open>getValidGeoSession\<close> finds a session in the storage that it accepts.\<close>

definition stored_session_valid :: "env \<Rightarrow> world \<Rightarrow> bool" where
  "stored_session_valid E w =
     (case storage w of
        None \<Rightarrow> False
      | Some (geoSession, expiry) \<Rightarrow> isSessionValid E (clock w) (Some geoSession) (Some expiry))"

text \<open>Every business call fails: the transport rejects it or the status is not 2xx.\<close>

definition dispatch_fails :: "fetch_outcome \<Rightarrow> bool" where
  "dispatch_fails out = (case out of Rejected ms m \<Rightarrow> True | Responded ms r \<Rightarrow> \<not> ok r)"

section \<open>A concrete platform and concrete services\<close>

text \<open>The calendar of a host running on UTC.\<close>

definition utc_startOfDay :: "int \<Rightarrow> int" where
  "utc_startOfDay t = t - t mod 86400000"

text \<open>\<open>JSON.parse\<close> on the handful of bodies the examples use; every other text is not JSON.\<close>

definition demo_parse :: "string \<Rightarrow> json option" where
  \<open>demo_parse s =
     (if s = ''{"data":{"geoSession":"T2"}}'' then
        Some (JObj [(''data'', JObj [(''geoSession'', JStr ''T2'')])])
      else if s = ''{"error":{"errorMessage":"Session expired","errorAction":"Login again"}}'' then
        Some (JObj [(''error'', JObj [(''errorMessage'', JStr ''Session expired''),
                                      (''errorAction'', JStr ''Login again'')])])
      else if s = ''{"error":{"errorMessage":"Invalid parcel"}}'' then
        Some (JObj [(''error'', JObj [(''errorMessage'', JStr ''Invalid parcel'')])])
      else if s = ''{"data":{"shipmentId":"42"}}'' then
        Some (JObj [(''data'', JObj [(''shipmentId'', JStr ''42'')])])
      else if s = ''{"error":{"errorMessage":"Address corrected"},"data":{"shipmentId":"42"}}'' then
        Some (JObj [(''error'', JObj [(''errorMessage'', JStr ''Address corrected'')]),
                    (''data'', JObj [(''shipmentId'', JStr ''42'')])])
      else None)\<close>

definition demo_env :: "(nat \<Rightarrow> fetch_outcome) \<Rightarrow> (nat \<Rightarrow> fetch_outcome) \<Rightarrow> env" where
  \<open>demo_env auth api =
     \<lparr>JSON_parse = demo_parse,
      JSON_stringify = (\<lambda>v. ''{"errorCode":"1"}''),
      ToString = (\<lambda>v. ''[object Object]''),
      startOfDay = utc_startOfDay,
      authFetch = auth,
      apiFetch = api\<rparr>\<close>

definition demo_credentials :: credentials where
  "demo_credentials = \<lparr>accountNumber = ''123456'', username = ''shop'', password = ''secret''\<rparr>"

definition login_ok :: fetch_outcome where
  \<open>login_ok = Responded 120 \<lparr>status = 200, statusText = ''OK'', body = ''{"data":{"geoSession":"T2"}}''\<rparr>\<close>

definition login_down :: fetch_outcome where
  "login_down = Rejected 30000 ''The operation was aborted due to timeout''"


definition resp_shipment :: fetch_outcome where
  \<open>resp_shipment = Responded 90 \<lparr>status = 200, statusText = ''OK'', body = ''{"data":{"shipmentId":"42"}}''\<rparr>\<close>

definition resp_invalid_parcel :: fetch_outcome where
  \<open>resp_invalid_parcel =
     Responded 70 \<lparr>status = 500, statusText = ''Internal Server Error'',
                   body = ''{"error":{"errorMessage":"Invalid parcel"}}''\<rparr>\<close>

definition resp_warning :: "nat \<Rightarrow> fetch_outcome" where
  \<open>resp_warning code =
     Responded 60 \<lparr>status = code, statusText = ''status'',
                   body = ''{"error":{"errorMessage":"Address corrected"},"data":{"shipmentId":"42"}}''\<rparr>\<close>

definition resp_label :: fetch_outcome where
  "resp_label = Responded 50 \<lparr>status = 200, statusText = ''OK'', body = ''^XA^FO50,50^FDParcel^FS^XZ''\<rparr>"


text \<open>A world at noon UTC of a day, nothing cached or stored, nothing done yet.\<close>

definition noon :: int where
  "noon = 19675 * 86400000 + 12 * 3600000"

definition fresh_world :: world where
  "fresh_world =
     \<lparr>clock = noon, cache_geoSession = None, cache_expiry = None, storage = None,
      authCalls = 0, apiCalls = 0, trace = []\<rparr>"

text \<open>The same with the token \<open>T1\<close>, valid for another hour, in the module's cache.\<close>

definition cached_world :: world where
  "cached_world = fresh_world\<lparr>cache_geoSession := Some (JStr ''T1''), cache_expiry := Some (noon + 3600000)\<rparr>"

text \<open>The same with a session in the manager's storage.\<close>

definition stored_world :: "token \<Rightarrow> jsdate \<Rightarrow> world" where
  "stored_world geoSession expiry = fresh_world\<lparr>storage := Some (geoSession, expiry)\<rparr>"

definition json_request :: options where
  "json_request =
     \<lparr>req_method = ''POST'', endpoint = ''/shipping/shipment'', req_body = None,
      headers = None, retry = None, retryAttempts = None\<rparr>"

definition label_request :: options where
  "label_request =
     \<lparr>req_method = ''GET'', endpoint = ''/shipping/shipment/42/label/'', req_body = None,
      headers = Some [(''Accept'', ''text/vnd.zebra-zpl'')], retry = None, retryAttempts = None\<rparr>"


text \<open>A manager with the constructor's defaults: 3 attempts, 2 seconds base delay.\<close>

definition demo_manager :: manager where
  "demo_manager = GeoSessionManager demo_credentials None None"

text \<open>A business call that runs into the 30 second timeout.\<close>

definition request_timeout :: fetch_outcome where
  "request_timeout = Rejected 30000 ''The operation was aborted due to timeout''"

text \<open>The JSON request with four attempts instead of the default three.\<close>

definition json_request_4 :: options where
  "json_request_4 = json_request\<lparr>retryAttempts := Some 4\<rparr>"

text \<open>
  A platform for \<open>validateAddress\<close>: the case mappings on ASCII letters, and a lookup
  service that knows one postcode.
\<close>

definition ascii_upper :: "string \<Rightarrow> string" where
  "ascii_upper s =
     map (\<lambda>ch. if 97 \<le> (of_char ch :: nat) \<and> (of_char ch :: nat) \<le> 122
                then char_of ((of_char ch :: nat) - 32) else ch) s"

definition ascii_lower :: "string \<Rightarrow> string" where
  "ascii_lower s =
     map (\<lambda>ch. if 65 \<le> (of_char ch :: nat) \<and> (of_char ch :: nat) \<le> 90
                then char_of ((of_char ch :: nat) + 32) else ch) s"

definition demo_lookup :: lookup_env where
  "demo_lookup =
     \<lparr>toUpperCase = ascii_upper,
      toLowerCase = ascii_lower,
      valueText = (\<lambda>v. ''[object Object]''),
      typeErrorMessage = (\<lambda>e. ''Cannot read properties of null''),
      postcodeFetch = (\<lambda>p. if p = ''SW1A1AA'' then
           LookupResponded \<lparr>lr_status = 200, lr_statusText = ''OK'',
             lr_json = Inr (JObj [(''status'', JNum 200),
                                  (''result'', JObj [(''country'', JStr ''England''),
                                                     (''admin_district'', JStr ''Westminster'')])])\<rparr>
         else LookupResponded \<lparr>lr_status = 404, lr_statusText = ''Not Found'',
             lr_json = Inr (JObj [(''status'', JNum 404), (''error'', JStr ''Invalid postcode'')])\<rparr>)\<rparr>"

section \<open>Basic facts about the world\<close>

lemma emit_fields [simp]:
  "trace (emit e w) = trace w @ [e]"
  "authCalls (emit e w) = authCalls w"
  "apiCalls (emit e w) = apiCalls w"
  "clock (emit e w) = clock w"
  "storage (emit e w) = storage w"
  "cache_geoSession (emit e w) = cache_geoSession w"
  "cache_expiry (emit e w) = cache_expiry w"
  by (simp_all add: emit_def)

lemma delay_fields [simp]:
  "trace (delay ms w) = trace w @ [Delay ms]"
  "authCalls (delay ms w) = authCalls w"
  "apiCalls (delay ms w) = apiCalls w"
  "clock (delay ms w) = clock w + max 0 ms"
  "storage (delay ms w) = storage w"
  "cache_geoSession (delay ms w) = cache_geoSession w"
  "cache_expiry (delay ms w) = cache_expiry w"
  by (simp_all add: delay_def)

lemma clearGeoSession_fields [simp]:
  "trace (clearGeoSession w) = trace w @ [ClearGeoSession]"
  "authCalls (clearGeoSession w) = authCalls w"
  "apiCalls (clearGeoSession w) = apiCalls w"
  "clock (clearGeoSession w) = clock w"
  "storage (clearGeoSession w) = storage w"
  "cache_geoSession (clearGeoSession w) = None"
  "cache_expiry (clearGeoSession w) = None"
  by (simp_all add: clearGeoSession_def)

lemma delays_append [simp]: "delays (xs @ ys) = delays xs @ delays ys"
  by (induction xs rule: delays.induct) auto

lemma auth_fetches_append [simp]: "auth_fetches (xs @ ys) = auth_fetches xs + auth_fetches ys"
  by (induction xs rule: auth_fetches.induct) auto

lemma auth_call_eq:
  "auth_call E c w =
     (auth_result E (authCalls w),
      emit (AuthFetch c) (w\<lparr>clock := clock w + max 0 (elapsed (authFetch E (authCalls w))),
                            authCalls := Suc (authCalls w)\<rparr>))"
  by (simp add: auth_call_def auth_result_def Let_def split: fetch_outcome.splits)

section \<open>Session validity\<close>

lemma isSessionValid_valid_date:
  "isSessionValid E now (Some tok) (Some (ValidDate expiresAt)) =
     (truthy tok \<and> now < expiresAt \<and> \<not> calendar_stale E now expiresAt)"
  by (auto simp: isSessionValid_def calendar_stale_def Let_def)

text \<open>
  The staleness branch of \<open>isSessionValid\<close> cannot reject anything. It is reached only
  when \<open>now < expiresAt\<close>, and the creation time it computes is \<open>expiresAt\<close> minus 90
  minutes, so the age it computes is below 1.5 hours and never above 12: the refresh
  at the start of a day that the comment in the source announces does not happen.
\<close>

lemma calendar_stale_unreachable: "now < expiresAt \<Longrightarrow> \<not> calendar_stale E now expiresAt"
  by (simp add: calendar_stale_def)

lemma isSessionValid_hard_expiry_only:
  "isSessionValid E now (Some tok) (Some (ValidDate expiresAt)) = (truthy tok \<and> now < expiresAt)"
  using calendar_stale_unreachable [of now expiresAt E] by (auto simp: isSessionValid_valid_date)

text \<open>
  An expiry that is an Invalid Date fails neither test, so a session with a truthy token
  and such an expiry is accepted, and accepted forever.
\<close>

lemma isSessionValid_invalid_date:
  "isSessionValid E now (Some tok) (Some InvalidDate) = truthy tok"
  by (simp add: isSessionValid_def)

lemma authenticateWithRetry_from_Inr_authCalls:
  "authenticateWithRetry_from E M attempt lastError w = (Inr s, w') \<Longrightarrow> authCalls w < authCalls w'"
proof (induction E M attempt lastError w rule: authenticateWithRetry_from.induct)
  case (1 E M attempt lastError w)
  show ?case
  proof (cases "attempt \<le> maxRetries M")
    case False
    with "1.prems" show ?thesis
      by (subst (asm) authenticateWithRetry_from.simps) simp
  next
    case True
    define w1 where "w1 = emit (AuthFetch (mgr_credentials M))
        (w\<lparr>clock := clock w + max 0 (elapsed (authFetch E (authCalls w))), authCalls := Suc (authCalls w)\<rparr>)"
    have c1: "authCalls w1 = Suc (authCalls w)" by (simp add: w1_def)
    show ?thesis
    proof (cases "auth_result E (authCalls w)")
      case (Inr g)
      then have ac: "auth_call E (mgr_credentials M) w = (Inr g, w1)"
        by (simp add: auth_call_eq w1_def)
      have "authenticateWithRetry_from E M attempt lastError w = (Inr (g, clock w1 + 90 * 60 * 1000), w1)"
        using True by (subst authenticateWithRetry_from.simps) (simp add: ac)
      with "1.prems" c1 show ?thesis by simp
    next
      case (Inl m)
      define w2 where "w2 = (if attempt < maxRetries M then delay (baseRetryDelay M * 2 ^ (attempt - 1)) w1 else w1)"
      have ac: "auth_call E (mgr_credentials M) w = (Inl m, w1)"
        using Inl by (simp add: auth_call_eq w1_def)
      have "authenticateWithRetry_from E M attempt lastError w =
            authenticateWithRetry_from E M (attempt + 1) (Some m) w2"
        using True by (subst authenticateWithRetry_from.simps) (simp add: ac w2_def)
      with "1.prems" have "authenticateWithRetry_from E M (attempt + 1) (Some m) w2 = (Inr s, w')" by simp
      then have "authCalls w2 < authCalls w'"
        using "1.IH" [OF True ac [symmetric] refl] unfolding w2_def by blast
      moreover have "authCalls w2 = Suc (authCalls w)" by (simp add: w2_def c1)
      ultimately show ?thesis by simp
    qed
  qed
qed

lemma getValidGeoSession_cases:
  "getValidGeoSession E M w =
     (if stored_session_valid E w then (Inr (fst (the (storage w))), w)
      else (case authenticateWithRetry E M w of
              (Inr (geoSession, expiry), w1) \<Rightarrow>
                 (Inr geoSession,
                  emit (StorageSet geoSession expiry) (w1\<lparr>storage := Some (geoSession, ValidDate expiry)\<rparr>))
            | (Inl m, w1) \<Rightarrow> (Inl (''Failed to get valid geo session: '' @ m), w1)))"
  by (simp add: getValidGeoSession_def stored_session_valid_def Let_def split: option.splits prod.splits)

lemma getValidGeoSession_reauth_changes_world:
  assumes "\<not> stored_session_valid E w"
  shows "getValidGeoSession E M w \<noteq> (Inr tok, w)"
proof
  assume eq: "getValidGeoSession E M w = (Inr tok, w)"
  obtain res w1 where a: "authenticateWithRetry E M w = (res, w1)"
    by (cases "authenticateWithRetry E M w")
  show False
  proof (cases res)
    case (Inl m)
    with eq a assms show False by (simp add: getValidGeoSession_cases)
  next
    case (Inr s)
    obtain g e where s: "s = (g, e)" by (cases s)
    from a Inr have "authCalls w < authCalls w1"
      using authenticateWithRetry_from_Inr_authCalls [of E M 1 None w s w1]
      by (simp add: authenticateWithRetry_def)
    moreover from eq a assms Inr s
    have "emit (StorageSet g e) (w1\<lparr>storage := Some (g, ValidDate e)\<rparr>) = w"
      by (auto simp: getValidGeoSession_cases)
    then have "authCalls (emit (StorageSet g e) (w1\<lparr>storage := Some (g, ValidDate e)\<rparr>)) = authCalls w" by simp
    ultimately show False by simp
  qed
qed

lemma demo_env_fields [simp]:
  "JSON_parse (demo_env auth api) = demo_parse"
  "startOfDay (demo_env auth api) = utc_startOfDay"
  "authFetch (demo_env auth api) = auth"
  "apiFetch (demo_env auth api) = api"
  by (simp_all add: demo_env_def)

lemma auth_result_login_ok: "auth_result (demo_env (\<lambda>k. login_ok) api) k = Inr (JStr ''T2'')"
  by (simp add: auth_result_def login_ok_def auth_payload_def demo_parse_def ok_def Let_def)

lemma authenticateWithRetry_from_success:
  "attempt \<le> maxRetries M \<Longrightarrow> auth_result E (authCalls w) = Inr g \<Longrightarrow>
   authenticateWithRetry_from E M attempt lastError w =
     (Inr (g, clock (snd (auth_call E (mgr_credentials M) w)) + 90 * 60 * 1000),
      snd (auth_call E (mgr_credentials M) w))"
  by (subst authenticateWithRetry_from.simps) (simp add: auth_call_eq)

lemma invalid_date_session_accepted:
  "storage w = Some (tok, InvalidDate) \<Longrightarrow> truthy tok \<Longrightarrow> getValidGeoSession E M w = (Inr tok, w)"
  by (simp add: getValidGeoSession_cases stored_session_valid_def isSessionValid_invalid_date)

text \<open>
  Claim C1, as the code has it. A session found in the storage whose expiry is a valid
  date is accepted, that is \<open>getValidGeoSession\<close> returns its token and leaves the
  world untouched (no credential exchange), exactly when the token is truthy (neither
  \<open>null\<close> nor the empty string) and the clock is before the expiry. Otherwise the
  result is that of \<open>authenticateWithRetry\<close>, stored on success and wrapped on failure.
  In particular a session whose expiry has passed is never accepted.
\<close>

theorem session_accepted_iff:
  "storage w = Some (tok, ValidDate expiresAt) \<Longrightarrow>
     (getValidGeoSession E M w = (Inr tok, w)) = (truthy tok \<and> clock w < expiresAt)
     \<and> (\<not> (truthy tok \<and> clock w < expiresAt) \<longrightarrow>
          getValidGeoSession E M w =
            (case authenticateWithRetry E M w of
               (Inr (geoSession, expiry), w1) \<Rightarrow>
                 (Inr geoSession,
                  emit (StorageSet geoSession expiry) (w1\<lparr>storage := Some (geoSession, ValidDate expiry)\<rparr>))
             | (Inl m, w1) \<Rightarrow> (Inl (''Failed to get valid geo session: '' @ m), w1)))
     \<and> (expiresAt \<le> clock w \<longrightarrow>
          \<not> isSessionValid E (clock w) (Some tok) (Some (ValidDate expiresAt)) \<and>
          getValidGeoSession E M w \<noteq> (Inr tok, w))"
proof -
  assume st: "storage w = Some (tok, ValidDate expiresAt)"
  have v: "stored_session_valid E w = (truthy tok \<and> clock w < expiresAt)"
    by (simp add: stored_session_valid_def st isSessionValid_hard_expiry_only)
  have a: "(getValidGeoSession E M w = (Inr tok, w)) = stored_session_valid E w"
  proof (cases "stored_session_valid E w")
    case True
    then show ?thesis by (simp add: getValidGeoSession_cases st)
  next
    case False
    then show ?thesis using getValidGeoSession_reauth_changes_world [of E w M tok] by simp
  qed
  have b: "\<not> stored_session_valid E w \<longrightarrow>
          getValidGeoSession E M w =
            (case authenticateWithRetry E M w of
               (Inr (geoSession, expiry), w1) \<Rightarrow>
                 (Inr geoSession,
                  emit (StorageSet geoSession expiry) (w1\<lparr>storage := Some (geoSession, ValidDate expiry)\<rparr>))
             | (Inl m, w1) \<Rightarrow> (Inl (''Failed to get valid geo session: '' @ m), w1))"
    by (simp add: getValidGeoSession_cases)
  have c: "expiresAt \<le> clock w \<longrightarrow>
          \<not> isSessionValid E (clock w) (Some tok) (Some (ValidDate expiresAt)) \<and>
          getValidGeoSession E M w \<noteq> (Inr tok, w)"
    using a v by (auto simp: isSessionValid_hard_expiry_only)
  from a b c show ?thesis unfolding v by blast
qed

text \<open>
  At noon, a stored token expiring an hour later is returned as it is; the same token
  with an expiry one millisecond in the past is not.
\<close>

theorem session_accepted_iff_witness:
  "storage (stored_world (JStr ''T1'') (ValidDate (noon + 3600000))) =
     Some (JStr ''T1'', ValidDate (noon + 3600000)) \<and>
   getValidGeoSession (demo_env (\<lambda>k. login_ok) (\<lambda>k. resp_shipment)) demo_manager
      (stored_world (JStr ''T1'') (ValidDate (noon + 3600000))) =
     (Inr (JStr ''T1''), stored_world (JStr ''T1'') (ValidDate (noon + 3600000))) \<and>
   storage (stored_world (JStr ''T1'') (ValidDate (noon - 1))) = Some (JStr ''T1'', ValidDate (noon - 1)) \<and>
   noon - 1 \<le> clock (stored_world (JStr ''T1'') (ValidDate (noon - 1))) \<and>
   getValidGeoSession (demo_env (\<lambda>k. login_ok) (\<lambda>k. resp_shipment)) demo_manager
      (stored_world (JStr ''T1'') (ValidDate (noon - 1))) \<noteq>
     (Inr (JStr ''T1''), stored_world (JStr ''T1'') (ValidDate (noon - 1)))"
proof -
  let ?E = "demo_env (\<lambda>k. login_ok) (\<lambda>k. resp_shipment)"
  have st: "storage (stored_world (JStr ''T1'') (ValidDate (noon + 3600000))) =
              Some (JStr ''T1'', ValidDate (noon + 3600000))"
    by (simp add: stored_world_def)
  have cond: "truthy (JStr ''T1'') \<and>
              clock (stored_world (JStr ''T1'') (ValidDate (noon + 3600000))) < noon + 3600000"
    by (simp add: stored_world_def fresh_world_def)
  have st': "storage (stored_world (JStr ''T1'') (ValidDate (noon - 1))) = Some (JStr ''T1'', ValidDate (noon - 1))"
    by (simp add: stored_world_def)
  have late: "noon - 1 \<le> clock (stored_world (JStr ''T1'') (ValidDate (noon - 1)))"
    by (simp add: stored_world_def fresh_world_def)
  show ?thesis
    using session_accepted_iff [OF st, of ?E demo_manager] session_accepted_iff [OF st', of ?E demo_manager]
      st cond st' late
    by blast
qed

text \<open>
  A stored session with the empty token, an hour before its expiry: the token is not
  \<open>null\<close>, the expiry is ahead and the session is not calendar-stale, yet
  \<open>getValidGeoSession\<close> makes a credential exchange and returns the new token.
\<close>

theorem empty_token_rejected_counterexample:
  "storage (stored_world (JStr []) (ValidDate (noon + 3600000))) = Some (JStr [], ValidDate (noon + 3600000)) \<and>
   JStr [] \<noteq> JNull \<and>
   clock (stored_world (JStr []) (ValidDate (noon + 3600000))) < noon + 3600000 \<and>
   \<not> calendar_stale (demo_env (\<lambda>k. login_ok) (\<lambda>k. resp_shipment))
        (clock (stored_world (JStr []) (ValidDate (noon + 3600000)))) (noon + 3600000) \<and>
   fst (getValidGeoSession (demo_env (\<lambda>k. login_ok) (\<lambda>k. resp_shipment)) demo_manager
          (stored_world (JStr []) (ValidDate (noon + 3600000)))) = Inr (JStr ''T2'') \<and>
   authCalls (snd (getValidGeoSession (demo_env (\<lambda>k. login_ok) (\<lambda>k. resp_shipment)) demo_manager
          (stored_world (JStr []) (ValidDate (noon + 3600000))))) = 1"
proof -
  let ?E = "demo_env (\<lambda>k. login_ok) (\<lambda>k. resp_shipment)"
  let ?w = "stored_world (JStr []) (ValidDate (noon + 3600000))"
  have inv: "\<not> stored_session_valid ?E ?w"
    by (simp add: stored_session_valid_def stored_world_def isSessionValid_hard_expiry_only)
  have a: "authenticateWithRetry ?E demo_manager ?w =
     (Inr (JStr ''T2'', clock (snd (auth_call ?E (mgr_credentials demo_manager) ?w)) + 90 * 60 * 1000),
      snd (auth_call ?E (mgr_credentials demo_manager) ?w))"
    unfolding authenticateWithRetry_def
    by (rule authenticateWithRetry_from_success)
       (simp_all add: demo_manager_def GeoSessionManager_def auth_result_login_ok)
  have "calendar_stale ?E (clock ?w) (noon + 3600000) = False"
    by (simp add: calendar_stale_def stored_world_def fresh_world_def)
  then show ?thesis
    using inv by (simp add: getValidGeoSession_cases a auth_call_eq) (simp add: stored_world_def fresh_world_def)
qed

section \<open>Retry bound of the session manager\<close>

lemma attempts_trace_beyond: "maxRetries M < first \<Longrightarrow> attempts_trace M first = []"
  by (simp add: attempts_trace_def)

lemma attempts_trace_step:
  "first \<le> maxRetries M \<Longrightarrow>
     attempts_trace M first =
       AuthFetch (mgr_credentials M) #
       (if first < maxRetries M then [Delay (baseRetryDelay M * 2 ^ (first - 1))] else []) @
       attempts_trace M (Suc first)"
  by (simp add: attempts_trace_def upt_conv_Cons)

lemma auth_fetches_attempts:
  "auth_fetches (concat (map (\<lambda>attempt. AuthFetch c # (if attempt < n then [Delay (d attempt)] else [])) as))
     = length as"
  by (induction as) auto

lemma delays_attempts:
  "delays (concat (map (\<lambda>attempt. AuthFetch c # (if attempt < n then [Delay (d attempt)] else [])) as))
     = map d (filter (\<lambda>attempt. attempt < n) as)"
  by (induction as) auto

lemma filter_below_upt: "filter (\<lambda>a. a < n) [first..<Suc n] = [first..<n]"
  by (cases "first \<le> n") auto

lemma attempts_trace_auth_fetches: "auth_fetches (attempts_trace M 1) = maxRetries M"
  unfolding attempts_trace_def by (simp only: auth_fetches_attempts) simp

lemma attempts_trace_delays:
  "delays (attempts_trace M 1) = map (\<lambda>attempt. baseRetryDelay M * 2 ^ (attempt - 1)) [1..<maxRetries M]"
  unfolding attempts_trace_def by (simp only: delays_attempts filter_below_upt)

lemma retry_failing_from:
  "\<forall>k. isl (auth_result E k) \<Longrightarrow>
   authenticateWithRetry_from E M attempt lastError w = (res, w') \<Longrightarrow>
         authCalls w' = authCalls w + (Suc (maxRetries M) - attempt) \<and>
         trace w' = trace w @ attempts_trace M attempt \<and>
         res = Inl (''Failed to authenticate after '' @ string_of_nat (maxRetries M) @ '' attempts: '' @
                    (if attempt \<le> maxRetries M
                     then wrapped_message (auth_failure E (authCalls w + (maxRetries M - attempt)))
                     else (case lastError of None \<Rightarrow> ''Unknown error'' | Some m \<Rightarrow> wrapped_message m)))"
proof (induction E M attempt lastError w arbitrary: res w' rule: authenticateWithRetry_from.induct)
  case (1 E M attempt lastError w)
  show ?case
  proof (cases "attempt \<le> maxRetries M")
    case False
    then have "authenticateWithRetry_from E M attempt lastError w =
        (Inl (''Failed to authenticate after '' @ string_of_nat (maxRetries M) @ '' attempts: '' @
              (case lastError of
                 None \<Rightarrow> ''Unknown error''
               | Some m \<Rightarrow> if m \<noteq> [] then m else ''Unknown error'')), w)"
      by (subst authenticateWithRetry_from.simps) simp
    with "1.prems"(2) False show ?thesis
      by (cases lastError) (simp_all add: attempts_trace_beyond wrapped_message_def)
  next
    case True
    from "1.prems"(1) have "isl (auth_result E (authCalls w))" by blast
    then obtain m where m: "auth_result E (authCalls w) = Inl m"
      by (cases "auth_result E (authCalls w)") simp_all
    define w1 where "w1 = emit (AuthFetch (mgr_credentials M))
        (w\<lparr>clock := clock w + max 0 (elapsed (authFetch E (authCalls w))), authCalls := Suc (authCalls w)\<rparr>)"
    define w2 where "w2 = (if attempt < maxRetries M then delay (baseRetryDelay M * 2 ^ (attempt - 1)) w1 else w1)"
    have ac: "auth_call E (mgr_credentials M) w = (Inl m, w1)"
      by (simp add: auth_call_eq m w1_def)
    have unfold: "authenticateWithRetry_from E M attempt lastError w =
                  authenticateWithRetry_from E M (attempt + 1) (Some m) w2"
      using True by (subst authenticateWithRetry_from.simps) (simp add: ac w2_def)
    have rec: "authenticateWithRetry_from E M (attempt + 1) (Some m) w2 = (res, w')"
      using unfold "1.prems"(2) by simp
    have IH: "authCalls w' = authCalls w2 + (Suc (maxRetries M) - (attempt + 1)) \<and>
         trace w' = trace w2 @ attempts_trace M (attempt + 1) \<and>
         res = Inl (''Failed to authenticate after '' @ string_of_nat (maxRetries M) @ '' attempts: '' @
                    (if attempt + 1 \<le> maxRetries M
                     then wrapped_message (auth_failure E (authCalls w2 + (maxRetries M - (attempt + 1))))
                     else (case Some m of None \<Rightarrow> ''Unknown error'' | Some m \<Rightarrow> wrapped_message m)))"
      using "1.IH" [OF True ac [symmetric] refl "1.prems"(1)] rec unfolding w2_def by blast
    have c2: "authCalls w2 = Suc (authCalls w)" by (simp add: w2_def w1_def)
    have t2: "trace w2 = trace w @ AuthFetch (mgr_credentials M) #
                 (if attempt < maxRetries M then [Delay (baseRetryDelay M * 2 ^ (attempt - 1))] else [])"
      by (simp add: w2_def w1_def)
    have fm: "auth_failure E (authCalls w) = m" by (simp add: auth_failure_def m)
    show ?thesis
    proof (cases "attempt < maxRetries M")
      case True
      then have "authCalls w2 + (maxRetries M - (attempt + 1)) = authCalls w + (maxRetries M - attempt)"
        using c2 by simp
      with IH True c2 t2 \<open>attempt \<le> maxRetries M\<close> show ?thesis
        by (simp add: attempts_trace_step [of attempt M])
    next
      case False
      with \<open>attempt \<le> maxRetries M\<close> have eq: "attempt = maxRetries M" by simp
      with IH c2 t2 fm show ?thesis
        by (simp add: attempts_trace_step [of "maxRetries M" M] attempts_trace_beyond)
    qed
  qed
qed

text \<open>
  Claim C2. With an authenticator that fails on every call, \<open>authenticateWithRetry\<close>
  makes exactly \<open>maxRetries\<close> credential exchanges, waits
  \<open>baseRetryDelay * 2^(attempt - 1)\<close> after each attempt but the last, and raises
  \<open>Failed to authenticate after N attempts: \<close> followed by the message of the last
  failure (by \<open>Unknown error\<close> if that message is empty or no attempt was made);
  \<open>getValidGeoSession\<close>, unless it accepts a stored session, raises that error wrapped
  once more.
\<close>

theorem retry_bound_always_failing:
  "\<forall>k. isl (auth_result E k) \<Longrightarrow>
   \<exists>w'. authenticateWithRetry E M w =
          (Inl (''Failed to authenticate after '' @ string_of_nat (maxRetries M) @ '' attempts: '' @
                (if maxRetries M = 0 then ''Unknown error''
                 else wrapped_message (auth_failure E (authCalls w + (maxRetries M - 1))))), w') \<and>
        trace w' = trace w @ attempts_trace M 1 \<and>
        auth_fetches (attempts_trace M 1) = maxRetries M \<and>
        delays (attempts_trace M 1) =
          map (\<lambda>attempt. baseRetryDelay M * 2 ^ (attempt - 1)) [1..<maxRetries M] \<and>
        authCalls w' = authCalls w + maxRetries M \<and>
        (\<not> stored_session_valid E w \<longrightarrow>
           getValidGeoSession E M w =
             (Inl (''Failed to get valid geo session: '' @
                   ''Failed to authenticate after '' @ string_of_nat (maxRetries M) @ '' attempts: '' @
                   (if maxRetries M = 0 then ''Unknown error''
                    else wrapped_message (auth_failure E (authCalls w + (maxRetries M - 1))))), w'))"
proof -
  assume fails: "\<forall>k. isl (auth_result E k)"
  obtain res w' where r: "authenticateWithRetry_from E M 1 None w = (res, w')"
    by (cases "authenticateWithRetry_from E M 1 None w")
  note f = retry_failing_from [OF fails r]
  have res: "res = Inl (''Failed to authenticate after '' @ string_of_nat (maxRetries M) @ '' attempts: '' @
                (if maxRetries M = 0 then ''Unknown error''
                 else wrapped_message (auth_failure E (authCalls w + (maxRetries M - 1)))))"
    using f by (cases "maxRetries M = 0") simp_all
  have a: "authenticateWithRetry E M w = (res, w')"
    unfolding authenticateWithRetry_def by (rule r)
  have g: "\<not> stored_session_valid E w \<longrightarrow>
           getValidGeoSession E M w =
             (Inl (''Failed to get valid geo session: '' @
                   ''Failed to authenticate after '' @ string_of_nat (maxRetries M) @ '' attempts: '' @
                   (if maxRetries M = 0 then ''Unknown error''
                    else wrapped_message (auth_failure E (authCalls w + (maxRetries M - 1))))), w')"
    by (simp add: getValidGeoSession_cases a res)
  have "authCalls w' = authCalls w + maxRetries M" using f by simp
  moreover have "trace w' = trace w @ attempts_trace M 1" using f by simp
  ultimately show ?thesis
    using a res g attempts_trace_auth_fetches [of M] attempts_trace_delays [of M] by blast
qed

lemma auth_result_login_down:
  "auth_result (demo_env (\<lambda>k. login_down) api) k = Inl ''The operation was aborted due to timeout''"
  by (simp add: auth_result_def login_down_def)

theorem retry_bound_always_failing_witness:
  "(\<forall>k. isl (auth_result (demo_env (\<lambda>k. login_down) (\<lambda>k. resp_shipment)) k)) \<and>
   fst (authenticateWithRetry (demo_env (\<lambda>k. login_down) (\<lambda>k. resp_shipment)) demo_manager fresh_world) =
     Inl ''Failed to authenticate after 3 attempts: The operation was aborted due to timeout'' \<and>
   trace (snd (authenticateWithRetry (demo_env (\<lambda>k. login_down) (\<lambda>k. resp_shipment)) demo_manager fresh_world)) =
     [AuthFetch demo_credentials, Delay 2000, AuthFetch demo_credentials, Delay 4000, AuthFetch demo_credentials]"
proof -
  let ?E = "demo_env (\<lambda>k. login_down) (\<lambda>k. resp_shipment)"
  have fails: "\<forall>k. isl (auth_result ?E k)"
    by (simp add: auth_result_login_down)
  have m: "maxRetries demo_manager = 3" "baseRetryDelay demo_manager = 2000"
     "mgr_credentials demo_manager = demo_credentials"
    by (simp_all add: demo_manager_def GeoSessionManager_def)
  have n: "string_of_nat 3 = ''3''" by code_simp
  have t: "attempts_trace demo_manager (Suc 0) =
    [AuthFetch demo_credentials, Delay 2000, AuthFetch demo_credentials, Delay 4000, AuthFetch demo_credentials]"
    by (simp add: attempts_trace_def m upt_conv_Cons)
  have fm: "auth_failure ?E k = ''The operation was aborted due to timeout''" for k
    by (simp add: auth_failure_def auth_result_login_down)
  from retry_bound_always_failing [OF fails, of demo_manager fresh_world]
  show ?thesis
    using fails by (auto simp: m n t fm wrapped_message_def fresh_world_def)
qed


section \<open>One pass through the request loop\<close>

lemma dispatch_eq:
  "dispatch E url g w =
     (apiFetch E (apiCalls w),
      emit (Dispatch url g) (w\<lparr>clock := clock w + max 0 (elapsed (apiFetch E (apiCalls w))),
                              apiCalls := Suc (apiCalls w)\<rparr>))"
  by (simp add: dispatch_def Let_def)

lemma request_attempt_auth_failed:
  "getGeoSession E c (0 < attempt) w = (Inl m, w1) \<Longrightarrow>
   request_attempt E c opts attempt w = (Throw m, w1)"
  by (simp add: request_attempt_def)

lemma request_attempt_rejected:
  "getGeoSession E c (0 < attempt) w = (Inr g, w1) \<Longrightarrow>
   apiFetch E (apiCalls w1) = Rejected ms m \<Longrightarrow>
   request_attempt E c opts attempt w = (Throw m, snd (dispatch E (request_url (endpoint opts)) g w1))"
  by (simp add: request_attempt_def dispatch_eq)

lemma request_attempt_label:
  "getGeoSession E c (0 < attempt) w = (Inr g, w1) \<Longrightarrow>
   apiFetch E (apiCalls w1) = Responded ms r \<Longrightarrow>
   isLabelRequest (opt_headers opts) \<Longrightarrow>
   request_attempt E c opts attempt w =
     (label_response E r, snd (dispatch E (request_url (endpoint opts)) g w1))"
  by (simp add: request_attempt_def dispatch_eq)

lemma request_attempt_json:
  "getGeoSession E c (0 < attempt) w = (Inr g, w1) \<Longrightarrow>
   apiFetch E (apiCalls w1) = Responded ms r \<Longrightarrow>
   \<not> isLabelRequest (opt_headers opts) \<Longrightarrow>
   request_attempt E c opts attempt w =
     json_response E opts attempt r (snd (dispatch E (request_url (endpoint opts)) g w1))"
  by (simp add: request_attempt_def dispatch_eq)

lemma loop_return:
  "attempt < opt_retryAttempts opts \<Longrightarrow>
   request_attempt E c opts attempt w = (Return v, w1) \<Longrightarrow>
   authenticatedRequest_from E c opts attempt lastError w = (Inr v, w1)"
  by (subst authenticatedRequest_from.simps) simp

lemma loop_continue:
  "attempt < opt_retryAttempts opts \<Longrightarrow>
   request_attempt E c opts attempt w = (Continue, w1) \<Longrightarrow>
   authenticatedRequest_from E c opts attempt lastError w =
     authenticatedRequest_from E c opts (attempt + 1) lastError w1"
  by (subst authenticatedRequest_from.simps) simp

lemma loop_throw:
  "attempt < opt_retryAttempts opts \<Longrightarrow>
   request_attempt E c opts attempt w = (Throw m, w1) \<Longrightarrow>
   authenticatedRequest_from E c opts attempt lastError w =
     (if \<not> opt_retry opts \<or> opt_retryAttempts opts - 1 \<le> attempt then (Inl m, w1)
      else authenticatedRequest_from E c opts (attempt + 1) (Some m)
             (delay (RETRY_DELAY * (int attempt + 1)) w1))"
  by (subst authenticatedRequest_from.simps) simp

section \<open>Label passthrough\<close>

lemma label_response_not_json:
  "ok r \<Longrightarrow> JSON_parse E (body r) = None \<Longrightarrow> label_response E r = Return (Raw (body r))"
  by (simp add: label_response_def)

text \<open>
  Claim C5. When the Accept header selects one of the four label formats, the token was
  obtained, and the dispatch answers with a 2xx status and a body that \<open>JSON.parse\<close>
  rejects, the call returns the raw text of the body, unchanged.
\<close>

theorem label_passthrough:
  assumes "isLabelRequest (opt_headers opts)"
    and "attempt < opt_retryAttempts opts"
    and "getGeoSession E c (0 < attempt) w = (Inr geoSession, w1)"
    and "apiFetch E (apiCalls w1) = Responded ms r"
    and "ok r"
    and "JSON_parse E (body r) = None"
  shows "authenticatedRequest_from E c opts attempt lastError w =
           (Inr (Raw (body r)), snd (dispatch E (request_url (endpoint opts)) geoSession w1))"
proof -
  have "request_attempt E c opts attempt w =
          (Return (Raw (body r)), snd (dispatch E (request_url (endpoint opts)) geoSession w1))"
    using assms by (simp add: request_attempt_label label_response_not_json)
  with assms(2) show ?thesis by (rule loop_return)
qed

lemma getGeoSession_cached:
  "getGeoSession E c False cached_world = (Inr (JStr ''T1''), cached_world)"
  by (simp add: getGeoSession_def cached_world_def fresh_world_def)

lemma label_request_fields [simp]:
  "isLabelRequest (opt_headers label_request)"
  "opt_retryAttempts label_request = 3"
  "opt_retry label_request"
  by (simp_all add: label_request_def opt_headers_def isLabelRequest_def acceptHeader_def
      opt_retryAttempts_def RETRY_ATTEMPTS_def opt_retry_def)

lemma json_request_fields [simp]:
  "\<not> isLabelRequest (opt_headers json_request)"
  "opt_retryAttempts json_request = 3"
  "opt_retry json_request"
  by (simp_all add: json_request_def opt_headers_def isLabelRequest_def acceptHeader_def
      opt_retryAttempts_def RETRY_ATTEMPTS_def opt_retry_def)

theorem label_passthrough_witness:
  "isLabelRequest (opt_headers label_request) \<and>
   apiFetch (demo_env (\<lambda>k. login_ok) (\<lambda>k. resp_label)) 0 =
     Responded 50 \<lparr>status = 200, statusText = ''OK'', body = ''^XA^FO50,50^FDParcel^FS^XZ''\<rparr> \<and>
   JSON_parse (demo_env (\<lambda>k. login_ok) (\<lambda>k. resp_label)) ''^XA^FO50,50^FDParcel^FS^XZ'' = None \<and>
   fst (authenticatedRequest (demo_env (\<lambda>k. login_ok) (\<lambda>k. resp_label)) demo_credentials
          label_request cached_world) = Inr (Raw ''^XA^FO50,50^FDParcel^FS^XZ'')"
proof -
  let ?E = "demo_env (\<lambda>k. login_ok) (\<lambda>k. resp_label)"
  let ?r = "\<lparr>status = 200, statusText = ''OK'', body = ''^XA^FO50,50^FDParcel^FS^XZ''\<rparr>"
  have h1: "isLabelRequest (opt_headers label_request)" by simp
  have h2: "0 < opt_retryAttempts label_request" by simp
  have h3: "getGeoSession ?E demo_credentials (0 < (0::nat)) cached_world = (Inr (JStr ''T1''), cached_world)"
    by (simp add: getGeoSession_cached)
  have h4: "apiFetch ?E (apiCalls cached_world) = Responded 50 ?r"
    by (simp add: resp_label_def)
  have h5: "ok ?r" by (simp add: ok_def)
  have h6: "JSON_parse ?E (body ?r) = None" by (simp add: demo_parse_def)
  from label_passthrough [OF h1 h2 h3 h4 h5 h6, of None]
  show ?thesis using h1 h4 h6 by (simp add: authenticatedRequest_def cached_world_def fresh_world_def)
qed


section \<open>JSON responses\<close>

lemma json_response_returns:
  "(if body r \<noteq> [] then JSON_parse E (body r) else Some JNull) = Some data \<Longrightarrow>
   ok r \<Longrightarrow> \<not> (hasError data \<and> \<not> hasData data) \<Longrightarrow>
   json_response E opts attempt r w = (Return (Json data), w)"
  by (simp add: json_response_def Let_def)

lemma json_response_fails:
  "(if body r \<noteq> [] then JSON_parse E (body r) else Some JNull) = Some data \<Longrightarrow>
   \<not> ok r \<or> (hasError data \<and> \<not> hasData data) \<Longrightarrow>
   json_response E opts attempt r w =
     (if status r = 401 \<and> opt_retry opts \<and> attempt < opt_retryAttempts opts - 1
      then (Continue, delay (RETRY_DELAY * (int attempt + 1)) (clearGeoSession w))
      else (Throw (request_error_message E data r), w))"
  by (simp add: json_response_def Let_def)

lemma json_response_unparseable:
  "body r \<noteq> [] \<Longrightarrow> JSON_parse E (body r) = None \<Longrightarrow>
   json_response E opts attempt r w =
     (Throw (if \<not> ok r then body r else ''Invalid JSON response from DPD API''), w)"
  by (simp add: json_response_def Let_def)

text \<open>
  Claim C4, as the code has it. For a request that is not a label request, a response
  whose body holds both a truthy \<open>error\<close> and a non-empty \<open>data\<close> makes the call
  return the parsed body (the object that carries \<open>data\<close> and \<open>error\<close>) when the
  status is 2xx; nothing is raised. When the status is not 2xx the attempt never
  returns that body: it throws the message taken from the \<open>error\<close> field, or takes
  the 401 \<open>continue\<close>; with retries off or at the last attempt the call raises that
  message.
\<close>

theorem warning_precedence:
  assumes "\<not> isLabelRequest (opt_headers opts)"
    and "attempt < opt_retryAttempts opts"
    and "getGeoSession E c (0 < attempt) w = (Inr geoSession, w1)"
    and "apiFetch E (apiCalls w1) = Responded ms r"
    and "body r \<noteq> []"
    and "JSON_parse E (body r) = Some parsed"
    and "hasError parsed"
    and "hasData parsed"
  shows "(ok r \<longrightarrow>
            authenticatedRequest_from E c opts attempt lastError w =
              (Inr (Json parsed), snd (dispatch E (request_url (endpoint opts)) geoSession w1))) \<and>
         (\<not> ok r \<longrightarrow>
            request_attempt E c opts attempt w =
              (if status r = 401 \<and> opt_retry opts \<and> attempt < opt_retryAttempts opts - 1
               then (Continue, delay (RETRY_DELAY * (int attempt + 1))
                                 (clearGeoSession (snd (dispatch E (request_url (endpoint opts)) geoSession w1))))
               else (Throw (request_error_message E parsed r),
                     snd (dispatch E (request_url (endpoint opts)) geoSession w1))) \<and>
            (\<forall>v w'. request_attempt E c opts attempt w \<noteq> (Return v, w')) \<and>
            (\<not> opt_retry opts \<or> opt_retryAttempts opts - 1 \<le> attempt \<longrightarrow>
               authenticatedRequest_from E c opts attempt lastError w =
                 (Inl (request_error_message E parsed r),
                  snd (dispatch E (request_url (endpoint opts)) geoSession w1))))"
proof -
  let ?w2 = "snd (dispatch E (request_url (endpoint opts)) geoSession w1)"
  have p: "(if body r \<noteq> [] then JSON_parse E (body r) else Some JNull) = Some parsed"
    using assms(5,6) by simp
  have good: "authenticatedRequest_from E c opts attempt lastError w = (Inr (Json parsed), ?w2)" if "ok r"
  proof -
    have "request_attempt E c opts attempt w = (Return (Json parsed), ?w2)"
      using assms that by (simp add: request_attempt_json json_response_returns)
    with assms(2) show ?thesis by (rule loop_return)
  qed
  have att: "request_attempt E c opts attempt w =
              (if status r = 401 \<and> opt_retry opts \<and> attempt < opt_retryAttempts opts - 1
               then (Continue, delay (RETRY_DELAY * (int attempt + 1)) (clearGeoSession ?w2))
               else (Throw (request_error_message E parsed r), ?w2))" if "\<not> ok r"
    using that by (simp only: request_attempt_json [OF assms(3,4,1)]) (simp add: json_response_fails [OF p])
  have noret: "\<forall>v w'. request_attempt E c opts attempt w \<noteq> (Return v, w')" if "\<not> ok r"
    using att [OF that] by (simp split: if_splits)
  have raised: "authenticatedRequest_from E c opts attempt lastError w =
                 (Inl (request_error_message E parsed r), ?w2)"
    if "\<not> ok r" "\<not> opt_retry opts \<or> opt_retryAttempts opts - 1 \<le> attempt"
  proof -
    have "\<not> (status r = 401 \<and> opt_retry opts \<and> attempt < opt_retryAttempts opts - 1)"
      using that(2) by auto
    then have "request_attempt E c opts attempt w = (Throw (request_error_message E parsed r), ?w2)"
      using att [OF that(1)] by simp
    then show ?thesis using assms(2) that(2) by (simp add: loop_throw)
  qed
  from good att noret raised show ?thesis by blast
qed

lemma demo_parse_warning:
  \<open>demo_parse ''{"error":{"errorMessage":"Address corrected"},"data":{"shipmentId":"42"}}'' =
     Some (JObj [(''error'', JObj [(''errorMessage'', JStr ''Address corrected'')]),
                 (''data'', JObj [(''shipmentId'', JStr ''42'')])])\<close>
  by (simp add: demo_parse_def)

lemma warning_body_has_both:
  "hasError (JObj [(''error'', JObj [(''errorMessage'', JStr ''Address corrected'')]),
                   (''data'', JObj [(''shipmentId'', JStr ''42'')])])"
  "hasData (JObj [(''error'', JObj [(''errorMessage'', JStr ''Address corrected'')]),
                  (''data'', JObj [(''shipmentId'', JStr ''42'')])])"
  by (simp_all add: hasError_def hasData_def)

text \<open>
  The body with a warning under status 200 is returned; under status 503, with the
  default retries, the first attempt throws the warning's message instead.
\<close>

theorem warning_precedence_witness:
  \<open>apiFetch (demo_env (\<lambda>k. login_ok) (\<lambda>k. resp_warning 200)) 0 = resp_warning 200 \<and>
   fst (authenticatedRequest (demo_env (\<lambda>k. login_ok) (\<lambda>k. resp_warning 200)) demo_credentials
          json_request cached_world) =
     Inr (Json (JObj [(''error'', JObj [(''errorMessage'', JStr ''Address corrected'')]),
                      (''data'', JObj [(''shipmentId'', JStr ''42'')])])) \<and>
   apiFetch (demo_env (\<lambda>k. login_ok) (\<lambda>k. resp_warning 503)) 0 = resp_warning 503 \<and>
   fst (request_attempt (demo_env (\<lambda>k. login_ok) (\<lambda>k. resp_warning 503)) demo_credentials
          json_request 0 cached_world) = Throw ''Address corrected''\<close>
proof -
  let ?E = "demo_env (\<lambda>k. login_ok) (\<lambda>k. resp_warning 200)"
  let ?F = "demo_env (\<lambda>k. login_ok) (\<lambda>k. resp_warning 503)"
  let ?b = \<open>''{"error":{"errorMessage":"Address corrected"},"data":{"shipmentId":"42"}}''\<close>
  let ?r = "\<lparr>status = 200, statusText = ''status'', body = ?b\<rparr>"
  let ?u = "\<lparr>status = 503, statusText = ''status'', body = ?b\<rparr>"
  let ?d = "JObj [(''error'', JObj [(''errorMessage'', JStr ''Address corrected'')]),
                  (''data'', JObj [(''shipmentId'', JStr ''42'')])]"
  have h1: "\<not> isLabelRequest (opt_headers json_request)" by simp
  have h2: "0 < opt_retryAttempts json_request" by simp
  have h3: "getGeoSession ?E demo_credentials (0 < (0::nat)) cached_world = (Inr (JStr ''T1''), cached_world)"
    by (simp add: getGeoSession_cached)
  have h3': "getGeoSession ?F demo_credentials (0 < (0::nat)) cached_world = (Inr (JStr ''T1''), cached_world)"
    by (simp add: getGeoSession_cached)
  have h4: "apiFetch ?E (apiCalls cached_world) = Responded 60 ?r"
    by (simp add: resp_warning_def)
  have h4': "apiFetch ?F (apiCalls cached_world) = Responded 60 ?u"
    by (simp add: resp_warning_def)
  have h5: "ok ?r" by (simp add: ok_def)
  have h5': "\<not> ok ?u" "status ?u \<noteq> 401" by (simp_all add: ok_def)
  have h6: "body ?r \<noteq> []" by simp
  have h6': "body ?u \<noteq> []" by simp
  have h7: "JSON_parse ?E (body ?r) = Some ?d" by (simp add: demo_parse_warning)
  have h7': "JSON_parse ?F (body ?u) = Some ?d" by (simp add: demo_parse_warning)
  have m: "request_error_message ?F ?d ?u = ''Address corrected''"
    by (simp add: request_error_message_def coalesce_def)
  from warning_precedence [OF h1 h2 h3 h4 h6 h7 warning_body_has_both, of None] h5
  have one: "fst (authenticatedRequest ?E demo_credentials json_request cached_world) = Inr (Json ?d)"
    by (simp add: authenticatedRequest_def)
  from warning_precedence [OF h1 h2 h3' h4' h6' h7' warning_body_has_both, of None] h5'
  have two: "fst (request_attempt ?F demo_credentials json_request 0 cached_world) = Throw ''Address corrected''"
    by (simp add: m)
  from one two show ?thesis by simp
qed

text \<open>
  The same body under status 500, with retries switched off: the call raises the message
  of the \<open>error\<close> field although the body carries a non-empty \<open>data\<close>.
\<close>

theorem warning_with_error_status_counterexample:
  \<open>\<not> isLabelRequest (opt_headers (json_request\<lparr>retry := Some False\<rparr>)) \<and>
   apiFetch (demo_env (\<lambda>k. login_ok) (\<lambda>k. resp_warning 500)) 0 =
     Responded 60 \<lparr>status = 500, statusText = ''status'',
        body = ''{"error":{"errorMessage":"Address corrected"},"data":{"shipmentId":"42"}}''\<rparr> \<and>
   JSON_parse (demo_env (\<lambda>k. login_ok) (\<lambda>k. resp_warning 500))
      ''{"error":{"errorMessage":"Address corrected"},"data":{"shipmentId":"42"}}'' =
     Some (JObj [(''error'', JObj [(''errorMessage'', JStr ''Address corrected'')]),
                 (''data'', JObj [(''shipmentId'', JStr ''42'')])]) \<and>
   hasError (JObj [(''error'', JObj [(''errorMessage'', JStr ''Address corrected'')]),
                   (''data'', JObj [(''shipmentId'', JStr ''42'')])]) \<and>
   hasData (JObj [(''error'', JObj [(''errorMessage'', JStr ''Address corrected'')]),
                  (''data'', JObj [(''shipmentId'', JStr ''42'')])]) \<and>
   fst (authenticatedRequest (demo_env (\<lambda>k. login_ok) (\<lambda>k. resp_warning 500)) demo_credentials
          (json_request\<lparr>retry := Some False\<rparr>) cached_world) = Inl ''Address corrected''\<close>
proof -
  let ?E = "demo_env (\<lambda>k. login_ok) (\<lambda>k. resp_warning 500)"
  let ?o = "json_request\<lparr>retry := Some False\<rparr>"
  let ?b = \<open>''{"error":{"errorMessage":"Address corrected"},"data":{"shipmentId":"42"}}''\<close>
  let ?r = "\<lparr>status = 500, statusText = ''status'', body = ?b\<rparr>"
  let ?d = "JObj [(''error'', JObj [(''errorMessage'', JStr ''Address corrected'')]),
                  (''data'', JObj [(''shipmentId'', JStr ''42'')])]"
  have o: "\<not> isLabelRequest (opt_headers ?o)" "opt_retryAttempts ?o = 3" "\<not> opt_retry ?o"
    by (simp_all add: json_request_def opt_headers_def isLabelRequest_def acceptHeader_def
        opt_retryAttempts_def RETRY_ATTEMPTS_def opt_retry_def)
  have h3: "getGeoSession ?E demo_credentials (0 < (0::nat)) cached_world = (Inr (JStr ''T1''), cached_world)"
    by (simp add: getGeoSession_cached)
  have h4: "apiFetch ?E (apiCalls cached_world) = Responded 60 ?r"
    by (simp add: resp_warning_def)
  have p: "(if body ?r \<noteq> [] then JSON_parse ?E (body ?r) else Some JNull) = Some ?d"
    by (simp add: demo_parse_warning)
  have nok: "\<not> ok ?r" by (simp add: ok_def)
  have msg: "request_error_message ?E ?d ?r = ''Address corrected''"
    by (simp add: request_error_message_def coalesce_def)
  have "request_attempt ?E demo_credentials ?o 0 cached_world =
          (Throw ''Address corrected'',
           snd (dispatch ?E (request_url (endpoint ?o)) (JStr ''T1'') cached_world))"
    using o nok by (simp add: request_attempt_json [OF h3 h4] json_response_fails [OF p] msg)
  then have "fst (authenticatedRequest ?E demo_credentials ?o cached_world) = Inl ''Address corrected''"
    using o by (simp add: authenticatedRequest_def loop_throw)
  then show ?thesis
    using o(1) h4 warning_body_has_both by (simp add: demo_parse_warning)
qed


section \<open>The message of a failed JSON request\<close>

lemma coalesce_simps [simp]:
  "nullish a \<Longrightarrow> coalesce a b = b"
  "\<not> nullish a \<Longrightarrow> coalesce a b = a"
  by (simp_all add: coalesce_def)






lemma no_retry_fields [simp]:
  "\<not> isLabelRequest (opt_headers (json_request\<lparr>retry := Some False\<rparr>))"
  "opt_retryAttempts (json_request\<lparr>retry := Some False\<rparr>) = 3"
  "\<not> opt_retry (json_request\<lparr>retry := Some False\<rparr>)"
  by (simp_all add: json_request_def opt_headers_def isLabelRequest_def acceptHeader_def
      opt_retryAttempts_def RETRY_ATTEMPTS_def opt_retry_def)


section \<open>Which failures are raised, and when\<close>

text \<open>
  Claim C6, as the code has it. An error thrown in an attempt is caught by the loop's
  \<open>catch\<close>: it is raised to the caller, with its message unchanged, only when retries are
  off or the attempt is the last one; otherwise the loop waits
  \<open>RETRY_DELAY * (attempt + 1)\<close> and goes on to the next attempt. A transport error, a
  body that is not JSON and a parsed failure response with a status other than 401 are
  such errors.
\<close>

theorem failure_raised_when_retries_exhausted:
  assumes "attempt < opt_retryAttempts opts"
  shows
   "(\<forall>m w1. request_attempt E c opts attempt w = (Throw m, w1) \<longrightarrow>
        authenticatedRequest_from E c opts attempt lastError w =
          (if \<not> opt_retry opts \<or> opt_retryAttempts opts - 1 \<le> attempt then (Inl m, w1)
           else authenticatedRequest_from E c opts (attempt + 1) (Some m)
                  (delay (RETRY_DELAY * (int attempt + 1)) w1))) \<and>
    (\<forall>g w1 ms m.
        getGeoSession E c (0 < attempt) w = (Inr g, w1) \<and> apiFetch E (apiCalls w1) = Rejected ms m \<longrightarrow>
        request_attempt E c opts attempt w =
          (Throw m, snd (dispatch E (request_url (endpoint opts)) g w1))) \<and>
    (\<forall>g w1 ms r.
        getGeoSession E c (0 < attempt) w = (Inr g, w1) \<and> apiFetch E (apiCalls w1) = Responded ms r \<and>
        \<not> isLabelRequest (opt_headers opts) \<and> body r \<noteq> [] \<and> JSON_parse E (body r) = None \<longrightarrow>
        request_attempt E c opts attempt w =
          (Throw (if \<not> ok r then body r else ''Invalid JSON response from DPD API''),
           snd (dispatch E (request_url (endpoint opts)) g w1))) \<and>
    (\<forall>g w1 ms r data.
        getGeoSession E c (0 < attempt) w = (Inr g, w1) \<and> apiFetch E (apiCalls w1) = Responded ms r \<and>
        \<not> isLabelRequest (opt_headers opts) \<and>
        (if body r \<noteq> [] then JSON_parse E (body r) else Some JNull) = Some data \<and>
        (\<not> ok r \<or> (hasError data \<and> \<not> hasData data)) \<and> status r \<noteq> 401 \<longrightarrow>
        request_attempt E c opts attempt w =
          (Throw (request_error_message E data r),
           snd (dispatch E (request_url (endpoint opts)) g w1)))"
proof -
  have a: "\<forall>m w1. request_attempt E c opts attempt w = (Throw m, w1) \<longrightarrow>
        authenticatedRequest_from E c opts attempt lastError w =
          (if \<not> opt_retry opts \<or> opt_retryAttempts opts - 1 \<le> attempt then (Inl m, w1)
           else authenticatedRequest_from E c opts (attempt + 1) (Some m)
                  (delay (RETRY_DELAY * (int attempt + 1)) w1))"
    using assms loop_throw by blast
  have b: "\<forall>g w1 ms m.
        getGeoSession E c (0 < attempt) w = (Inr g, w1) \<and> apiFetch E (apiCalls w1) = Rejected ms m \<longrightarrow>
        request_attempt E c opts attempt w =
          (Throw m, snd (dispatch E (request_url (endpoint opts)) g w1))"
    using request_attempt_rejected by blast
  have c: "\<forall>g w1 ms r.
        getGeoSession E c (0 < attempt) w = (Inr g, w1) \<and> apiFetch E (apiCalls w1) = Responded ms r \<and>
        \<not> isLabelRequest (opt_headers opts) \<and> body r \<noteq> [] \<and> JSON_parse E (body r) = None \<longrightarrow>
        request_attempt E c opts attempt w =
          (Throw (if \<not> ok r then body r else ''Invalid JSON response from DPD API''),
           snd (dispatch E (request_url (endpoint opts)) g w1))"
    by (simp add: request_attempt_json json_response_unparseable)
  have d: "\<forall>g w1 ms r data.
        getGeoSession E c (0 < attempt) w = (Inr g, w1) \<and> apiFetch E (apiCalls w1) = Responded ms r \<and>
        \<not> isLabelRequest (opt_headers opts) \<and>
        (if body r \<noteq> [] then JSON_parse E (body r) else Some JNull) = Some data \<and>
        (\<not> ok r \<or> (hasError data \<and> \<not> hasData data)) \<and> status r \<noteq> 401 \<longrightarrow>
        request_attempt E c opts attempt w =
          (Throw (request_error_message E data r),
           snd (dispatch E (request_url (endpoint opts)) g w1))"
    by (auto simp: request_attempt_json json_response_fails)
  from a b c d show ?thesis by blast
qed


lemma getGeoSession_force: "getGeoSession E c True w = authenticate E c w"
  by (simp add: getGeoSession_def split: option.splits)

lemma authenticate_success:
  "auth_result E (authCalls w) = Inr g \<Longrightarrow>
   authenticate E c w =
     (Inr g, (snd (auth_call E c w))\<lparr>cache_geoSession := Some g,
                cache_expiry := Some (clock (snd (auth_call E c w)) + 90 * 60 * 1000)\<rparr>)"
  by (simp add: authenticate_def auth_call_eq)

lemma authenticate_failure:
  "auth_result E (authCalls w) = Inl m \<Longrightarrow> authenticate E c w = (Inl m, snd (auth_call E c w))"
  by (simp add: authenticate_def auth_call_eq)

lemma demo_parse_invalid_parcel:
  \<open>demo_parse ''{"error":{"errorMessage":"Invalid parcel"}}'' =
     Some (JObj [(''error'', JObj [(''errorMessage'', JStr ''Invalid parcel'')])])\<close>
  by (simp add: demo_parse_def)

lemma demo_parse_shipment:
  \<open>demo_parse ''{"data":{"shipmentId":"42"}}'' = Some (JObj [(''data'', JObj [(''shipmentId'', JStr ''42'')])])\<close>
  by (simp add: demo_parse_def)

lemma invalid_parcel_attempt:
  assumes "apiFetch E (apiCalls cached_world) = resp_invalid_parcel"
    and "JSON_parse E = demo_parse"
    and "\<not> isLabelRequest (opt_headers opts)"
  shows "request_attempt E demo_credentials opts 0 cached_world =
           (Throw ''Invalid parcel'',
            snd (dispatch E (request_url (endpoint opts)) (JStr ''T1'') cached_world))"
proof -
  let ?b = \<open>''{"error":{"errorMessage":"Invalid parcel"}}''\<close>
  let ?r = "\<lparr>status = 500, statusText = ''Internal Server Error'', body = ?b\<rparr>"
  let ?d = "JObj [(''error'', JObj [(''errorMessage'', JStr ''Invalid parcel'')])]"
  have h3: "getGeoSession E demo_credentials (0 < (0::nat)) cached_world = (Inr (JStr ''T1''), cached_world)"
    by (simp add: getGeoSession_cached)
  have h4: "apiFetch E (apiCalls cached_world) = Responded 70 ?r"
    using assms(1) by (simp add: resp_invalid_parcel_def)
  have p: "(if body ?r \<noteq> [] then JSON_parse E (body ?r) else Some JNull) = Some ?d"
    by (simp add: assms(2) demo_parse_invalid_parcel)
  have nok: "\<not> ok ?r" by (simp add: ok_def)
  have msg: "request_error_message E ?d ?r = ''Invalid parcel''"
    by (simp add: request_error_message_def)
  show ?thesis
    using nok by (simp add: request_attempt_json [OF h3 h4 assms(3)] json_response_fails [OF p] msg)
qed

theorem failure_raised_when_retries_exhausted_witness:
  "0 < opt_retryAttempts (json_request\<lparr>retry := Some False\<rparr>) \<and>
   authenticatedRequest (demo_env (\<lambda>k. login_ok) (\<lambda>k. resp_invalid_parcel)) demo_credentials
      (json_request\<lparr>retry := Some False\<rparr>) cached_world =
     (Inl ''Invalid parcel'',
      snd (dispatch (demo_env (\<lambda>k. login_ok) (\<lambda>k. resp_invalid_parcel))
             (request_url (endpoint (json_request\<lparr>retry := Some False\<rparr>))) (JStr ''T1'') cached_world))"
proof -
  let ?E = "demo_env (\<lambda>k. login_ok) (\<lambda>k. resp_invalid_parcel)"
  let ?o = "json_request\<lparr>retry := Some False\<rparr>"
  have h: "0 < opt_retryAttempts ?o" by simp
  have t: "request_attempt ?E demo_credentials ?o 0 cached_world =
           (Throw ''Invalid parcel'',
            snd (dispatch ?E (request_url (endpoint ?o)) (JStr ''T1'') cached_world))"
    by (rule invalid_parcel_attempt) simp_all
  from failure_raised_when_retries_exhausted [OF h, of ?E demo_credentials cached_world None] t
  have "authenticatedRequest_from ?E demo_credentials ?o 0 None cached_world =
     (Inl ''Invalid parcel'', snd (dispatch ?E (request_url (endpoint ?o)) (JStr ''T1'') cached_world))"
    by simp
  then show ?thesis using h by (simp add: authenticatedRequest_def)
qed

text \<open>
  The defaults (retry on, three attempts), a first response 500 with an error and no
  data, a second response 200 with data: nothing is raised. The loop waits a second,
  authenticates again, dispatches a second time and returns the second body.
\<close>

theorem terminal_failure_retried_counterexample:
  \<open>apiFetch (demo_env (\<lambda>k. login_ok) (\<lambda>k. if k = 0 then resp_invalid_parcel else resp_shipment)) 0 =
     Responded 70 \<lparr>status = 500, statusText = ''Internal Server Error'',
                   body = ''{"error":{"errorMessage":"Invalid parcel"}}''\<rparr> \<and>
   fst (authenticatedRequest
          (demo_env (\<lambda>k. login_ok) (\<lambda>k. if k = 0 then resp_invalid_parcel else resp_shipment))
          demo_credentials json_request cached_world) =
     Inr (Json (JObj [(''data'', JObj [(''shipmentId'', JStr ''42'')])])) \<and>
   apiCalls (snd (authenticatedRequest
          (demo_env (\<lambda>k. login_ok) (\<lambda>k. if k = 0 then resp_invalid_parcel else resp_shipment))
          demo_credentials json_request cached_world)) = 2 \<and>
   delays (trace (snd (authenticatedRequest
          (demo_env (\<lambda>k. login_ok) (\<lambda>k. if k = 0 then resp_invalid_parcel else resp_shipment))
          demo_credentials json_request cached_world))) = [1000]\<close>
proof -
  let ?E = "demo_env (\<lambda>k. login_ok) (\<lambda>k. if k = 0 then resp_invalid_parcel else resp_shipment)"
  let ?o = json_request
  let ?url = "request_url (endpoint ?o)"
  let ?r = \<open>\<lparr>status = 200, statusText = ''OK'', body = ''{"data":{"shipmentId":"42"}}''\<rparr>\<close>
  let ?d = "JObj [(''data'', JObj [(''shipmentId'', JStr ''42'')])]"
  define w1 where "w1 = snd (dispatch ?E ?url (JStr ''T1'') cached_world)"
  define w2 where "w2 = delay (RETRY_DELAY * (int 0 + 1)) w1"
  define w3 where "w3 = (snd (auth_call ?E demo_credentials w2))\<lparr>cache_geoSession := Some (JStr ''T2''),
                cache_expiry := Some (clock (snd (auth_call ?E demo_credentials w2)) + 90 * 60 * 1000)\<rparr>"
  define w4 where "w4 = snd (dispatch ?E ?url (JStr ''T2'') w3)"
  have first: "apiFetch ?E 0 = Responded 70 \<lparr>status = 500, statusText = ''Internal Server Error'',
                   body = ''{\"error\":{\"errorMessage\":\"Invalid parcel\"}}''\<rparr>"
    by (simp add: resp_invalid_parcel_def)
  have t0: "request_attempt ?E demo_credentials ?o 0 cached_world = (Throw ''Invalid parcel'', w1)"
    unfolding w1_def by (rule invalid_parcel_attempt) (simp_all add: cached_world_def fresh_world_def)
  have s0: "authenticatedRequest_from ?E demo_credentials ?o 0 None cached_world =
            authenticatedRequest_from ?E demo_credentials ?o (0 + 1) (Some ''Invalid parcel'') w2"
    using t0 by (simp add: loop_throw w2_def)
  have c1: "apiCalls w1 = 1" "delays (trace w1) = []"
    by (simp_all add: w1_def dispatch_eq cached_world_def fresh_world_def)
  have c2: "apiCalls w2 = 1" "delays (trace w2) = [1000]"
    by (simp_all add: w2_def c1 RETRY_DELAY_def)
  have g1: "getGeoSession ?E demo_credentials (0 < (0 + 1 :: nat)) w2 = (Inr (JStr ''T2''), w3)"
    by (simp add: getGeoSession_force authenticate_success [OF auth_result_login_ok] w3_def)
  have c3: "apiCalls w3 = 1" "delays (trace w3) = [1000]"
    by (simp_all add: w3_def auth_call_eq c2)
  have f1: "apiFetch ?E (apiCalls w3) = Responded 90 ?r"
    by (simp add: c3 resp_shipment_def)
  have p: "(if body ?r \<noteq> [] then JSON_parse ?E (body ?r) else Some JNull) = Some ?d"
    by (simp add: demo_parse_shipment)
  have j: "json_response ?E ?o (0 + 1) ?r w4 = (Return (Json ?d), w4)"
    by (rule json_response_returns [OF p]) (simp_all add: ok_def hasError_def)
  have "request_attempt ?E demo_credentials ?o (0 + 1) w2 = json_response ?E ?o (0 + 1) ?r w4"
    unfolding w4_def by (rule request_attempt_json [OF g1 f1]) simp
  with j have t1: "request_attempt ?E demo_credentials ?o (0 + 1) w2 = (Return (Json ?d), w4)"
    by simp
  have s1: "authenticatedRequest_from ?E demo_credentials ?o (0 + 1) (Some ''Invalid parcel'') w2 =
            (Inr (Json ?d), w4)"
    by (rule loop_return [OF _ t1]) simp
  have c4: "apiCalls w4 = 2" "delays (trace w4) = [1000]"
    by (simp_all add: w4_def dispatch_eq c3)
  have "authenticatedRequest ?E demo_credentials ?o cached_world = (Inr (Json ?d), w4)"
    by (simp only: authenticatedRequest_def s0 s1)
  then show ?thesis using first c4 by simp
qed


section \<open>The waits of the request loop\<close>

lemma authenticate_delays:
  "authenticate E c w = (res, w1) \<Longrightarrow> delays (trace w1) = delays (trace w)"
  by (cases "auth_result E (authCalls w)") (auto simp: authenticate_def auth_call_eq)

lemma getGeoSession_delays:
  "getGeoSession E c force w = (res, w1) \<Longrightarrow> delays (trace w1) = delays (trace w)"
  by (auto simp: getGeoSession_def authenticate_delays split: option.splits if_splits)

lemma dispatch_delays: "delays (trace (snd (dispatch E url g w))) = delays (trace w)"
  by (simp add: dispatch_eq)

lemma label_response_not_ok: "\<not> ok r \<Longrightarrow> \<exists>m. label_response E r = Throw m"
  by (simp add: label_response_def)

lemma failing_attempt:
  assumes fails: "\<forall>k. dispatch_fails (apiFetch E k)"
    and att: "request_attempt E c opts attempt w = (st, w1)"
  shows "(\<exists>m. st = Throw m \<and> delays (trace w1) = delays (trace w)) \<or>
         (st = Continue \<and> opt_retry opts \<and> attempt < opt_retryAttempts opts - 1 \<and>
          delays (trace w1) = delays (trace w) @ [RETRY_DELAY * (int attempt + 1)])"
proof -
  obtain res wg where g: "getGeoSession E c (0 < attempt) w = (res, wg)"
    by (cases "getGeoSession E c (0 < attempt) w")
  have dg: "delays (trace wg) = delays (trace w)" using g by (rule getGeoSession_delays)
  show ?thesis
  proof (cases res)
    case (Inl m)
    with g att have "st = Throw m" "w1 = wg" by (simp_all add: request_attempt_auth_failed)
    with dg show ?thesis by simp
  next
    case (Inr tok)
    let ?wd = "snd (dispatch E (request_url (endpoint opts)) tok wg)"
    have dd: "delays (trace ?wd) = delays (trace w)" by (simp add: dispatch_delays dg)
    from fails have f: "dispatch_fails (apiFetch E (apiCalls wg))" by blast
    show ?thesis
    proof (cases "apiFetch E (apiCalls wg)")
      case (Rejected ms m)
      with g Inr att have "st = Throw m" "w1 = ?wd" by (simp_all add: request_attempt_rejected)
      with dd show ?thesis by simp
    next
      case (Responded ms r)
      with f have nok: "\<not> ok r" by (simp add: dispatch_fails_def)
      show ?thesis
      proof (cases "isLabelRequest (opt_headers opts)")
        case True
        from nok obtain m where "label_response E r = Throw m" using label_response_not_ok by blast
        with g Inr Responded True att have "st = Throw m" "w1 = ?wd"
          by (simp_all add: request_attempt_label)
        with dd show ?thesis by simp
      next
        case False
        with g Inr Responded att have j: "json_response E opts attempt r ?wd = (st, w1)"
          by (simp add: request_attempt_json)
        show ?thesis
        proof (cases "if body r \<noteq> [] then JSON_parse E (body r) else Some JNull")
          case None
          then have "body r \<noteq> []" "JSON_parse E (body r) = None" by (auto split: if_splits)
          with j nok have "st = Throw (body r)" "w1 = ?wd" by (simp_all add: json_response_unparseable)
          with dd show ?thesis by simp
        next
          case (Some data)
          from j nok show ?thesis
            by (auto simp: json_response_fails [OF Some] dd split: if_splits)
        qed
      qed
    qed
  qed
qed

lemma request_delays_from:
  "\<forall>k. dispatch_fails (apiFetch E k) \<Longrightarrow> opt_retry opts \<Longrightarrow>
   \<exists>m w'. authenticatedRequest_from E c opts attempt lastError w = (Inl m, w') \<and>
          delays (trace w') =
            delays (trace w) @ map (\<lambda>k. RETRY_DELAY * (int k + 1)) [attempt..<opt_retryAttempts opts - 1]"
proof (induction E c opts attempt lastError w rule: authenticatedRequest_from.induct)
  case (1 E c opts attempt lastError w)
  show ?case
  proof (cases "attempt < opt_retryAttempts opts")
    case False
    then show ?thesis by (subst authenticatedRequest_from.simps) simp
  next
    case True
    obtain st w1 where att: "request_attempt E c opts attempt w = (st, w1)"
      by (cases "request_attempt E c opts attempt w")
    from failing_attempt [OF "1.prems"(1) att]
    consider (throw) m where "st = Throw m" "delays (trace w1) = delays (trace w)"
      | (continue) "st = Continue" "attempt < opt_retryAttempts opts - 1"
          "delays (trace w1) = delays (trace w) @ [RETRY_DELAY * (int attempt + 1)]"
      by blast
    then show ?thesis
    proof cases
      case throw
      show ?thesis
      proof (cases "opt_retryAttempts opts - 1 \<le> attempt")
        case last: True
        then have "authenticatedRequest_from E c opts attempt lastError w = (Inl m, w1)"
          using True att throw(1) by (simp add: loop_throw)
        with last throw(2) show ?thesis by simp
      next
        case more: False
        let ?w2 = "delay (RETRY_DELAY * (int attempt + 1)) w1"
        have step: "authenticatedRequest_from E c opts attempt lastError w =
                    authenticatedRequest_from E c opts (attempt + 1) (Some m) ?w2"
          using True att throw(1) more "1.prems"(2) by (simp add: loop_throw)
        have "\<not> (\<not> opt_retry opts \<or> opt_retryAttempts opts - 1 \<le> attempt)"
          using more "1.prems"(2) by simp
        from "1.IH"(1) [OF True att [symmetric] throw(1) this "1.prems"]
        obtain m' w' where r: "authenticatedRequest_from E c opts (attempt + 1) (Some m) ?w2 = (Inl m', w')"
          and d: "delays (trace w') = delays (trace ?w2) @
                    map (\<lambda>k. RETRY_DELAY * (int k + 1)) [attempt + 1..<opt_retryAttempts opts - 1]"
          by blast
        have "[attempt..<opt_retryAttempts opts - 1] = attempt # [attempt + 1..<opt_retryAttempts opts - 1]"
          using more by (simp add: upt_conv_Cons)
        with d throw(2) have "delays (trace w') = delays (trace w) @
            map (\<lambda>k. RETRY_DELAY * (int k + 1)) [attempt..<opt_retryAttempts opts - 1]"
          by simp
        with step r show ?thesis by simp
      qed
    next
      case continue
      have step: "authenticatedRequest_from E c opts attempt lastError w =
                  authenticatedRequest_from E c opts (attempt + 1) lastError w1"
        using True att continue(1) by (simp add: loop_continue)
      from "1.IH"(2) [OF True att [symmetric] continue(1) "1.prems"]
      obtain m' w' where r: "authenticatedRequest_from E c opts (attempt + 1) lastError w1 = (Inl m', w')"
        and d: "delays (trace w') = delays (trace w1) @
                  map (\<lambda>k. RETRY_DELAY * (int k + 1)) [attempt + 1..<opt_retryAttempts opts - 1]"
        by blast
      have "[attempt..<opt_retryAttempts opts - 1] = attempt # [attempt + 1..<opt_retryAttempts opts - 1]"
        using continue(2) by (simp add: upt_conv_Cons)
      with d continue(3) have "delays (trace w') = delays (trace w) @
          map (\<lambda>k. RETRY_DELAY * (int k + 1)) [attempt..<opt_retryAttempts opts - 1]"
        by simp
      with step r show ?thesis by simp
    qed
  qed
qed


lemma label_response_no_continue: "label_response E r \<noteq> Continue"
  by (simp add: label_response_def Let_def split: option.splits)

lemma json_response_delays:
  "json_response E opts attempt r w = (st, w1) \<Longrightarrow>
   (if st = Continue then delays (trace w1) = delays (trace w) @ [RETRY_DELAY * (int attempt + 1)]
    else delays (trace w1) = delays (trace w))"
  by (auto simp: json_response_def Let_def split: option.splits if_splits)

lemma request_attempt_delays:
  assumes att: "request_attempt E c opts attempt w = (st, w1)"
  shows "if st = Continue then delays (trace w1) = delays (trace w) @ [RETRY_DELAY * (int attempt + 1)]
         else delays (trace w1) = delays (trace w)"
proof -
  obtain res wg where g: "getGeoSession E c (0 < attempt) w = (res, wg)"
    by (cases "getGeoSession E c (0 < attempt) w")
  have dg: "delays (trace wg) = delays (trace w)" using g by (rule getGeoSession_delays)
  show ?thesis
  proof (cases res)
    case (Inl m)
    with g att have "st = Throw m" "w1 = wg" by (simp_all add: request_attempt_auth_failed)
    with dg show ?thesis by simp
  next
    case (Inr tok)
    let ?wd = "snd (dispatch E (request_url (endpoint opts)) tok wg)"
    have dd: "delays (trace ?wd) = delays (trace w)" by (simp add: dispatch_delays dg)
    show ?thesis
    proof (cases "apiFetch E (apiCalls wg)")
      case (Rejected ms m)
      with g Inr att have "st = Throw m" "w1 = ?wd" by (simp_all add: request_attempt_rejected)
      with dd show ?thesis by simp
    next
      case (Responded ms r)
      show ?thesis
      proof (cases "isLabelRequest (opt_headers opts)")
        case True
        with g Inr Responded att have "st = label_response E r" "w1 = ?wd"
          by (simp_all add: request_attempt_label)
        with dd label_response_no_continue [of E r] show ?thesis by simp
      next
        case False
        with g Inr Responded att have "json_response E opts attempt r ?wd = (st, w1)"
          by (simp add: request_attempt_json)
        from json_response_delays [OF this] dd show ?thesis by simp
      qed
    qed
  qed
qed

lemma retry_wait:
  assumes "attempt < opt_retryAttempts opts"
    and "request_attempt E c opts attempt w = (st, w1)"
    and "st = Continue \<or> (\<exists>m. st = Throw m) \<and> opt_retry opts \<and> attempt < opt_retryAttempts opts - 1"
  shows "\<exists>lastError' w2.
           authenticatedRequest_from E c opts attempt lastError w =
             authenticatedRequest_from E c opts (attempt + 1) lastError' w2 \<and>
           delays (trace w2) = delays (trace w) @ [RETRY_DELAY * (int attempt + 1)]"
proof (cases "st = Continue")
  case True
  with assms(1,2) have "authenticatedRequest_from E c opts attempt lastError w =
                        authenticatedRequest_from E c opts (attempt + 1) lastError w1"
    by (simp add: loop_continue)
  moreover have "delays (trace w1) = delays (trace w) @ [RETRY_DELAY * (int attempt + 1)]"
    using request_attempt_delays [OF assms(2)] True by simp
  ultimately show ?thesis by blast
next
  case False
  with assms(3) obtain m where m: "st = Throw m" and r: "opt_retry opts" "attempt < opt_retryAttempts opts - 1"
    by blast
  have "authenticatedRequest_from E c opts attempt lastError w =
        authenticatedRequest_from E c opts (attempt + 1) (Some m) (delay (RETRY_DELAY * (int attempt + 1)) w1)"
    using loop_throw [OF assms(1), of E c w m w1 lastError] assms(2) m r by simp
  moreover have "delays (trace w1) = delays (trace w)"
    using request_attempt_delays [OF assms(2)] m by simp
  then have "delays (trace (delay (RETRY_DELAY * (int attempt + 1)) w1)) =
             delays (trace w) @ [RETRY_DELAY * (int attempt + 1)]" by simp
  ultimately show ?thesis by blast
qed

text \<open>
  Claim C9, as the code has it. A failed attempt \<open>k\<close> that is followed by another
  attempt (the 401 \<open>continue\<close>, or a caught error with retries on and attempts left) is
  separated from it by exactly one wait, of \<open>RETRY_DELAY * (k + 1)\<close>. So when every
  business call fails (the transport rejects it or the status is not 2xx) and retries
  are on, the call raises after the waits \<open>RETRY_DELAY * 1, RETRY_DELAY * 2, ...\<close>, one
  for each attempt but the last: the waits grow linearly.
\<close>

theorem request_backoff_linear:
  "(attempt < opt_retryAttempts opts \<and> request_attempt E c opts attempt w = (st, w1) \<and>
    (st = Continue \<or> (\<exists>m. st = Throw m) \<and> opt_retry opts \<and> attempt < opt_retryAttempts opts - 1) \<longrightarrow>
      (\<exists>lastError' w2.
           authenticatedRequest_from E c opts attempt lastError w =
             authenticatedRequest_from E c opts (attempt + 1) lastError' w2 \<and>
           delays (trace w2) = delays (trace w) @ [RETRY_DELAY * (int attempt + 1)])) \<and>
   ((\<forall>k. dispatch_fails (apiFetch E k)) \<and> opt_retry opts \<longrightarrow>
      (\<exists>m w'. authenticatedRequest E c opts w = (Inl m, w') \<and>
          delays (trace w') =
            delays (trace w) @ map (\<lambda>k. RETRY_DELAY * (int k + 1)) [0..<opt_retryAttempts opts - 1]))"
proof -
  have a: "attempt < opt_retryAttempts opts \<and> request_attempt E c opts attempt w = (st, w1) \<and>
    (st = Continue \<or> (\<exists>m. st = Throw m) \<and> opt_retry opts \<and> attempt < opt_retryAttempts opts - 1) \<longrightarrow>
      (\<exists>lastError' w2.
           authenticatedRequest_from E c opts attempt lastError w =
             authenticatedRequest_from E c opts (attempt + 1) lastError' w2 \<and>
           delays (trace w2) = delays (trace w) @ [RETRY_DELAY * (int attempt + 1)])"
    using retry_wait [of attempt opts E c w st w1 lastError] by blast
  have b: "(\<forall>k. dispatch_fails (apiFetch E k)) \<and> opt_retry opts \<longrightarrow>
      (\<exists>m w'. authenticatedRequest E c opts w = (Inl m, w') \<and>
          delays (trace w') =
            delays (trace w) @ map (\<lambda>k. RETRY_DELAY * (int k + 1)) [0..<opt_retryAttempts opts - 1])"
    unfolding authenticatedRequest_def using request_delays_from [of E opts c 0 None w] by blast
  from a b show ?thesis by blast
qed

lemma timeout_fails: "\<forall>k. dispatch_fails (apiFetch (demo_env auth (\<lambda>k. request_timeout)) k)"
  by (simp add: dispatch_fails_def request_timeout_def)

theorem request_backoff_linear_witness:
  "(\<forall>k. dispatch_fails (apiFetch (demo_env (\<lambda>k. login_ok) (\<lambda>k. request_timeout)) k)) \<and>
   opt_retry json_request \<and>
   request_attempt (demo_env (\<lambda>k. login_ok) (\<lambda>k. request_timeout)) demo_credentials json_request 0 cached_world =
     (Throw ''The operation was aborted due to timeout'',
      snd (dispatch (demo_env (\<lambda>k. login_ok) (\<lambda>k. request_timeout))
             (request_url (endpoint json_request)) (JStr ''T1'') cached_world)) \<and>
   (\<exists>lastError' w2.
      authenticatedRequest_from (demo_env (\<lambda>k. login_ok) (\<lambda>k. request_timeout)) demo_credentials
         json_request 0 None cached_world =
      authenticatedRequest_from (demo_env (\<lambda>k. login_ok) (\<lambda>k. request_timeout)) demo_credentials
         json_request (0 + 1) lastError' w2 \<and>
      delays (trace w2) = [1000]) \<and>
   delays (trace (snd (authenticatedRequest (demo_env (\<lambda>k. login_ok) (\<lambda>k. request_timeout))
                         demo_credentials json_request cached_world))) = [1000, 2000]"
proof -
  let ?E = "demo_env (\<lambda>k. login_ok) (\<lambda>k. request_timeout)"
  let ?w1 = "snd (dispatch ?E (request_url (endpoint json_request)) (JStr ''T1'') cached_world)"
  have r: "opt_retry json_request" by simp
  have n: "0 < opt_retryAttempts json_request" "0 < opt_retryAttempts json_request - 1" by simp_all
  have u: "map (\<lambda>k. RETRY_DELAY * (int k + 1)) [0..<opt_retryAttempts json_request - 1] = [1000, 2000]"
    by code_simp
  have t: "delays (trace cached_world) = []"
    by (simp add: cached_world_def fresh_world_def)
  have h3: "getGeoSession ?E demo_credentials (0 < (0::nat)) cached_world = (Inr (JStr ''T1''), cached_world)"
    by (simp add: getGeoSession_cached)
  have h4: "apiFetch ?E (apiCalls cached_world) = Rejected 30000 ''The operation was aborted due to timeout''"
    by (simp add: request_timeout_def)
  have a0: "request_attempt ?E demo_credentials json_request 0 cached_world =
              (Throw ''The operation was aborted due to timeout'', ?w1)"
    by (rule request_attempt_rejected [OF h3 h4])
  note inst = request_backoff_linear [of 0 json_request ?E demo_credentials cached_world
          "Throw ''The operation was aborted due to timeout''" ?w1 None]
  from inst n a0 r
  have part1: "\<exists>lastError' w2.
      authenticatedRequest_from ?E demo_credentials json_request 0 None cached_world =
      authenticatedRequest_from ?E demo_credentials json_request (0 + 1) lastError' w2 \<and>
      delays (trace w2) = delays (trace cached_world) @ [RETRY_DELAY * (int 0 + 1)]"
    by blast
  from inst timeout_fails r
  have part2: "\<exists>m w'. authenticatedRequest ?E demo_credentials json_request cached_world = (Inl m, w') \<and>
               delays (trace w') = delays (trace cached_world) @
                 map (\<lambda>k. RETRY_DELAY * (int k + 1)) [0..<opt_retryAttempts json_request - 1]"
    by blast
  have l: "\<exists>lastError' w2.
      authenticatedRequest_from ?E demo_credentials json_request 0 None cached_world =
      authenticatedRequest_from ?E demo_credentials json_request (0 + 1) lastError' w2 \<and>
      delays (trace w2) = [1000]"
    using part1 by (simp add: t RETRY_DELAY_def)
  have g: "delays (trace (snd (authenticatedRequest ?E demo_credentials json_request cached_world))) = [1000, 2000]"
    using part2 unfolding u t by auto
  from timeout_fails r a0 l g show ?thesis by blast
qed

text \<open>
  Four attempts, every dispatch timing out: the waits are 1, 2 and 3 seconds, where
  doubling would give 1, 2 and 4.
\<close>

theorem request_backoff_counterexample:
  "opt_retryAttempts json_request_4 = 4 \<and>
   delays (trace (snd (authenticatedRequest (demo_env (\<lambda>k. login_ok) (\<lambda>k. request_timeout))
                         demo_credentials json_request_4 cached_world))) = [1000, 2000, 3000] \<and>
   map (\<lambda>k. RETRY_DELAY * 2 ^ k) [0, 1, 2] = [1000, 2000, 4000]"
proof -
  have o: "opt_retry json_request_4" "opt_retryAttempts json_request_4 = 4"
    by (simp_all add: json_request_4_def json_request_def opt_retry_def opt_retryAttempts_def)
  have u: "map (\<lambda>k. RETRY_DELAY * (int k + 1)) [0..<opt_retryAttempts json_request_4 - 1] = [1000, 2000, 3000]"
    by code_simp
  have t: "delays (trace cached_world) = []"
    by (simp add: cached_world_def fresh_world_def)
  from request_delays_from [OF timeout_fails o(1), of "\<lambda>k. login_ok" demo_credentials 0 None cached_world]
  have "delays (trace (snd (authenticatedRequest (demo_env (\<lambda>k. login_ok) (\<lambda>k. request_timeout))
                         demo_credentials json_request_4 cached_world))) = [1000, 2000, 3000]"
    unfolding u t authenticatedRequest_def by auto
  then show ?thesis using o(2) by (simp add: RETRY_DELAY_def)
qed


section \<open>Recovery from an expired session\<close>



lemma dispatch_fields [simp]:
  "trace (snd (dispatch E url g w)) = trace w @ [Dispatch url g]"
  "cache_geoSession (snd (dispatch E url g w)) = cache_geoSession w"
  "cache_expiry (snd (dispatch E url g w)) = cache_expiry w"
  "authCalls (snd (dispatch E url g w)) = authCalls w"
  "apiCalls (snd (dispatch E url g w)) = Suc (apiCalls w)"
  by (simp_all add: dispatch_eq)








section \<open>Forced refresh\<close>

lemma auth_call_fields [simp]:
  "trace (snd (auth_call E c w)) = trace w @ [AuthFetch c]"
  "cache_geoSession (snd (auth_call E c w)) = cache_geoSession w"
  "cache_expiry (snd (auth_call E c w)) = cache_expiry w"
  "storage (snd (auth_call E c w)) = storage w"
  "authCalls (snd (auth_call E c w)) = Suc (authCalls w)"
  "apiCalls (snd (auth_call E c w)) = apiCalls w"
  by (simp_all add: auth_call_eq)

lemma storage_clear_fields [simp]:
  "storage (storage_clear w) = None"
  "trace (storage_clear w) = trace w @ [StorageClear]"
  "clock (storage_clear w) = clock w"
  "authCalls (storage_clear w) = authCalls w"
  by (simp_all add: storage_clear_def)

text \<open>
  Claim C8, as the code has it. \<open>getGeoSession\<close> with \<open>forceRefresh = true\<close> skips the
  test of the cached token and goes straight to \<open>authenticate\<close>; it does not clear the
  cache. The credential exchange is its first effect; when it fails the cache is as it
  was, when it succeeds the cache holds the new token, expiring 90 minutes later. The
  manager's \<open>refreshGeoSession\<close> is the operation that clears first: it empties the
  storage and then runs \<open>authenticateWithRetry\<close> from the emptied storage.
\<close>

theorem force_refresh:
  "getGeoSession E c True w = authenticate E c w \<and>
   (\<forall>m. auth_result E (authCalls w) = Inl m \<longrightarrow>
      (\<exists>w'. getGeoSession E c True w = (Inl m, w') \<and>
            trace w' = trace w @ [AuthFetch c] \<and>
            cache_geoSession w' = cache_geoSession w \<and> cache_expiry w' = cache_expiry w)) \<and>
   (\<forall>g. auth_result E (authCalls w) = Inr g \<longrightarrow>
      (\<exists>w'. getGeoSession E c True w = (Inr g, w') \<and>
            trace w' = trace w @ [AuthFetch c] \<and>
            cache_geoSession w' = Some g \<and> cache_expiry w' = Some (clock w' + 90 * 60 * 1000))) \<and>
   storage (storage_clear w) = None \<and>
   trace (storage_clear w) = trace w @ [StorageClear] \<and>
   refreshGeoSession E M w =
     (case authenticateWithRetry E M (storage_clear w) of
        (Inr (geoSession, expiry), w1) \<Rightarrow>
          (Inr geoSession,
           emit (StorageSet geoSession expiry) (w1\<lparr>storage := Some (geoSession, ValidDate expiry)\<rparr>))
      | (Inl m, w1) \<Rightarrow> (Inl (''Failed to get valid geo session: '' @ m), w1))"
proof -
  have a: "getGeoSession E c True w = authenticate E c w" by (rule getGeoSession_force)
  have b: "\<exists>w'. getGeoSession E c True w = (Inl m, w') \<and>
            trace w' = trace w @ [AuthFetch c] \<and>
            cache_geoSession w' = cache_geoSession w \<and> cache_expiry w' = cache_expiry w"
    if "auth_result E (authCalls w) = Inl m" for m
    using that by (simp add: a authenticate_failure)
  have c: "\<exists>w'. getGeoSession E c True w = (Inr g, w') \<and>
            trace w' = trace w @ [AuthFetch c] \<and>
            cache_geoSession w' = Some g \<and> cache_expiry w' = Some (clock w' + 90 * 60 * 1000)"
    if "auth_result E (authCalls w) = Inr g" for g
    using that by (simp add: a authenticate_success)
  have "\<not> stored_session_valid E (storage_clear w)"
    by (simp add: stored_session_valid_def)
  then have d: "refreshGeoSession E M w =
     (case authenticateWithRetry E M (storage_clear w) of
        (Inr (geoSession, expiry), w1) \<Rightarrow>
          (Inr geoSession,
           emit (StorageSet geoSession expiry) (w1\<lparr>storage := Some (geoSession, ValidDate expiry)\<rparr>))
      | (Inl m, w1) \<Rightarrow> (Inl (''Failed to get valid geo session: '' @ m), w1))"
    by (simp add: refreshGeoSession_def getValidGeoSession_cases)
  from a b c d show ?thesis by simp
qed

theorem force_refresh_witness:
  "auth_result (demo_env (\<lambda>k. login_ok) (\<lambda>k. resp_shipment)) (authCalls cached_world) = Inr (JStr ''T2'') \<and>
   fst (getGeoSession (demo_env (\<lambda>k. login_ok) (\<lambda>k. resp_shipment)) demo_credentials True cached_world) =
     Inr (JStr ''T2'') \<and>
   cache_geoSession (snd (getGeoSession (demo_env (\<lambda>k. login_ok) (\<lambda>k. resp_shipment))
                            demo_credentials True cached_world)) = Some (JStr ''T2'') \<and>
   trace (snd (getGeoSession (demo_env (\<lambda>k. login_ok) (\<lambda>k. resp_shipment))
                 demo_credentials True cached_world)) = [AuthFetch demo_credentials]"
proof -
  let ?E = "demo_env (\<lambda>k. login_ok) (\<lambda>k. resp_shipment)"
  have h: "auth_result ?E (authCalls cached_world) = Inr (JStr ''T2'')"
    by (rule auth_result_login_ok)
  have t: "trace cached_world = []" by (simp add: cached_world_def fresh_world_def)
  from force_refresh [of ?E demo_credentials cached_world demo_manager] h
  obtain w' where "getGeoSession ?E demo_credentials True cached_world = (Inr (JStr ''T2''), w')"
    and "trace w' = trace cached_world @ [AuthFetch demo_credentials]"
    and "cache_geoSession w' = Some (JStr ''T2'')"
    by blast
  then show ?thesis using h t by simp
qed

text \<open>
  A forced refresh while the login service is down: the error is raised, the exchange is
  the only effect, and the token \<open>T1\<close> cached before the call is still in the cache.
\<close>

theorem force_refresh_keeps_cache_counterexample:
  "cache_geoSession cached_world = Some (JStr ''T1'') \<and>
   fst (getGeoSession (demo_env (\<lambda>k. login_down) (\<lambda>k. resp_shipment)) demo_credentials True cached_world) =
     Inl ''The operation was aborted due to timeout'' \<and>
   trace (snd (getGeoSession (demo_env (\<lambda>k. login_down) (\<lambda>k. resp_shipment))
                 demo_credentials True cached_world)) = [AuthFetch demo_credentials] \<and>
   cache_geoSession (snd (getGeoSession (demo_env (\<lambda>k. login_down) (\<lambda>k. resp_shipment))
                            demo_credentials True cached_world)) = Some (JStr ''T1'')"
proof -
  let ?E = "demo_env (\<lambda>k. login_down) (\<lambda>k. resp_shipment)"
  have "getGeoSession ?E demo_credentials True cached_world =
          (Inl ''The operation was aborted due to timeout'', snd (auth_call ?E demo_credentials cached_world))"
    by (simp add: getGeoSession_force authenticate_failure [OF auth_result_login_down])
  then show ?thesis by (simp add: cached_world_def fresh_world_def)
qed

section \<open>Postcode format\<close>

text \<open>
  Claim C10. When the postcode, with all whitespace removed and upper-cased, does not
  match \<open>^[A-Z]{1,2}\d{1,2}[A-Z]?\d[A-Z]{2}$\<close>, \<open>validateAddress\<close> returns
  \<open>{valid: false, serviceable: false, message: "Invalid UK postcode format"}\<close> and
  makes no lookup.
\<close>

theorem invalid_postcode_format:
  "\<not> regex_test postcodeRegex (toUpperCase L (filter (\<lambda>ch. \<not> is_space ch) (postcode params))) \<Longrightarrow>
   validateAddress L c params =
     (\<lparr>valid = False, serviceable = False, message = Some ''Invalid UK postcode format''\<rparr>, [])"
  by (simp add: validateAddress_def Let_def)


theorem invalid_postcode_format_witness:
  "\<not> regex_test postcodeRegex
       (toUpperCase demo_lookup (filter (\<lambda>ch. \<not> is_space ch) (postcode \<lparr>postcode = ''sw1a 1a'', town = ''London''\<rparr>))) \<and>
   validateAddress demo_lookup demo_credentials \<lparr>postcode = ''sw1a 1a'', town = ''London''\<rparr> =
     (\<lparr>valid = False, serviceable = False, message = Some ''Invalid UK postcode format''\<rparr>, [])"
proof -
  have h: "\<not> regex_test postcodeRegex
       (toUpperCase demo_lookup (filter (\<lambda>ch. \<not> is_space ch) (postcode \<lparr>postcode = ''sw1a 1a'', town = ''London''\<rparr>)))"
    by code_simp
  from invalid_postcode_format [OF h, of demo_credentials] h show ?thesis by simp
qed

text \<open>A well-formed postcode, for comparison, is looked up once, in its cleaned form.\<close>

lemma valid_postcode_looked_up:
  "validateAddress demo_lookup demo_credentials \<lparr>postcode = ''sw1a 1aa'', town = ''westminster''\<rparr> =
     (\<lparr>valid = True, serviceable = True, message = Some ''Address is valid and serviceable by DPD''\<rparr>,
      [''SW1A1AA''])"
  by code_simp


end
